theory Spec2Isabelle
  imports Main
begin

section \<open>Go values used by the step\<close>

text \<open>
  A Go \<open>string\<close> is a sequence of bytes, here a \<open>char list\<close>. A Go \<open>error\<close> built with
  \<open>errors.New\<close> or \<open>fmt.Errorf\<close> is its message; \<open>nil\<close> is \<open>None\<close>.
\<close>

type_synonym error = string

subsection \<open>Package strings\<close>

definition HasPrefix :: "string \<Rightarrow> string \<Rightarrow> bool" where
  "HasPrefix s p = (length p \<le> length s \<and> take (length p) s = p)"

definition TrimPrefix :: "string \<Rightarrow> string \<Rightarrow> string" where
  "TrimPrefix s p = (if HasPrefix s p then drop (length p) s else s)"

text \<open>
  \<open>strings.TrimSpace\<close> removes leading and trailing white space as Unicode defines it.
  On the bytes of the string these are the one-byte code points U+0009 to U+000D and
  U+0020, the two-byte encodings of U+0085 and U+00A0, and the three-byte encodings of
  U+1680, U+2000 to U+200A, U+2028, U+2029, U+202F, U+205F and U+3000.
\<close>

definition isSpace1 :: "char \<Rightarrow> bool" where
  "isSpace1 a = (a = CHR 0x09 \<or> a = CHR 0x0A \<or> a = CHR 0x0B \<or> a = CHR 0x0C \<or> a = CHR 0x0D
     \<or> a = CHR 0x20)"

definition isSpace2 :: "char \<Rightarrow> char \<Rightarrow> bool" where
  "isSpace2 a b = (a = CHR 0xC2 \<and> (b = CHR 0x85 \<or> b = CHR 0xA0))"

definition isSpace3 :: "char \<Rightarrow> char \<Rightarrow> char \<Rightarrow> bool" where
  "isSpace3 a b c =
     ((a = CHR 0xE1 \<and> b = CHR 0x9A \<and> c = CHR 0x80)
      \<or> (a = CHR 0xE2 \<and> b = CHR 0x80
           \<and> ((128::nat) \<le> of_char c \<and> of_char c \<le> (138::nat)
                \<or> c = CHR 0xA8 \<or> c = CHR 0xA9 \<or> c = CHR 0xAF))
      \<or> (a = CHR 0xE2 \<and> b = CHR 0x81 \<and> c = CHR 0x9F)
      \<or> (a = CHR 0xE3 \<and> b = CHR 0x80 \<and> c = CHR 0x80))"

fun trimLeft :: "string \<Rightarrow> string" where
  "trimLeft (a # b # c # s) =
     (if isSpace1 a then trimLeft (b # c # s)
      else if isSpace2 a b then trimLeft (c # s)
      else if isSpace3 a b c then trimLeft s
      else a # b # c # s)"
| "trimLeft [a, b] =
     (if isSpace1 a then trimLeft [b] else if isSpace2 a b then [] else [a, b])"
| "trimLeft [a] = (if isSpace1 a then [] else [a])"
| "trimLeft [] = []"

text \<open>The same scan from the end of the string, on the reversed bytes.\<close>

fun trimLeftRev :: "string \<Rightarrow> string" where
  "trimLeftRev (c # b # a # s) =
     (if isSpace1 c then trimLeftRev (b # a # s)
      else if isSpace2 b c then trimLeftRev (a # s)
      else if isSpace3 a b c then trimLeftRev s
      else c # b # a # s)"
| "trimLeftRev [c, b] =
     (if isSpace1 c then trimLeftRev [b] else if isSpace2 b c then [] else [c, b])"
| "trimLeftRev [c] = (if isSpace1 c then [] else [c])"
| "trimLeftRev [] = []"

definition TrimSpace :: "string \<Rightarrow> string" where
  "TrimSpace s = rev (trimLeftRev (rev (trimLeft s)))"

subsection \<open>Package fmt: the verb \<open>%d\<close> on a non-negative integer\<close>

fun decimal :: "nat \<Rightarrow> string" where
  "decimal n =
     (if n < 10 then [''0123456789'' ! n]
      else decimal (n div 10) @ [''0123456789'' ! (n mod 10)])"

subsection \<open>Package bufio: a Scanner with the default split function ScanLines\<close>

text \<open>
  \<open>ScanLines\<close> returns each line of the input without its end-of-line marker: the bytes
  up to the next \<open>\n\<close>, less one trailing \<open>\r\<close>. A last line with no \<open>\n\<close> is returned when
  it is not empty. \<open>rawLines\<close> are the lines before the \<open>\r\<close> is dropped.
\<close>

fun rawLines :: "string \<Rightarrow> string list" where
  "rawLines [] = []"
| "rawLines (c # cs) =
     (if c = CHR 0x0A then [] # rawLines cs
      else (case rawLines cs of [] \<Rightarrow> [[c]] | l # ls \<Rightarrow> (c # l) # ls))"

definition dropCR :: "string \<Rightarrow> string" where
  "dropCR l = (if l \<noteq> [] \<and> last l = CHR 0x0D then butlast l else l)"

text \<open>
  The scanner's buffer grows to \<open>MaxScanTokenSize\<close> bytes and no further. A line that does
  not fit (its bytes before the \<open>\n\<close> fill the buffer) makes \<open>Scan\<close> return false with
  \<open>ErrTooLong\<close>: the loop \<open>for scanner.Scan()\<close> ends there, as it does at the end of the
  input. \<open>scanLines\<close> are the tokens that loop sees.
\<close>

definition MaxScanTokenSize :: nat where
  "MaxScanTokenSize = 64 * 1024"

definition scanLines :: "string \<Rightarrow> string list" where
  "scanLines content =
     map dropCR (takeWhile (\<lambda>l. length l < MaxScanTokenSize) (rawLines content))"

section \<open>parseErrorFromResultLog\<close>

text \<open>
  The body of the scanning loop, with the two variables \<open>failureLineFound\<close> and
  \<open>lastFailureMessage\<close> passed along.
\<close>

fun parseLoop :: "bool \<Rightarrow> string \<Rightarrow> string list \<Rightarrow> string" where
  "parseLoop failureLineFound lastFailureMessage [] = lastFailureMessage"
| "parseLoop failureLineFound lastFailureMessage (t # ts) =
     (let line = TrimSpace t in
      if line = ''<failure>'' then parseLoop True lastFailureMessage ts
      else if failureLineFound \<and> HasPrefix line ''<message>''
        then parseLoop False line ts
        else parseLoop False lastFailureMessage ts)"

definition parseErrorFromResultLog :: "string \<Rightarrow> string \<times> error option" where
  "parseErrorFromResultLog content = (parseLoop False '''' (scanLines content), None)"

section \<open>Versions\<close>

text \<open>
  Modelled from the spec: the version library (package \<open>version\<close>, imported by
  \<open>main.go\<close>) is not among the source files. The spec has a bucket key's suffix parsed
  "as a dotted version number", compared by "standard multi-component numeric comparison
  (not lexicographic string comparison)", and formatted from its "first two numeric
  components (major, minor), discarding any patch component". A version is its list of
  numeric components; a parsed version has the three components major, minor and patch
  at least, a missing one being zero. The range of a machine integer is not modelled.
\<close>

record Version =
  segments :: "nat list"

text \<open>
  Modelled from the spec: \<open>version.NewVersion\<close>, the parser of a dotted version number:
  decimal numbers separated by dots, as many as there are, and at least one.
\<close>

fun splitDot :: "string \<Rightarrow> string list" where
  "splitDot [] = [[]]"
| "splitDot (c # cs) =
     (if c = CHR ''.'' then [] # splitDot cs
      else (case splitDot cs of [] \<Rightarrow> [[c]] | l # ls \<Rightarrow> (c # l) # ls))"

definition isDigit :: "char \<Rightarrow> bool" where
  "isDigit c = ((48::nat) \<le> of_char c \<and> of_char c \<le> (57::nat))"

definition parseDigits :: "string \<Rightarrow> nat option" where
  "parseDigits s =
     (if s \<noteq> [] \<and> list_all isDigit s
      then Some (foldl (\<lambda>a c. 10 * a + (of_char c - 48)) 0 s) else None)"

definition padSegments :: "nat list \<Rightarrow> nat list" where
  "padSegments xs = xs @ replicate (3 - length xs) 0"

definition NewVersion :: "string \<Rightarrow> error + Version" where
  "NewVersion v =
     (let parts = map parseDigits (splitDot v) in
      if list_all (\<lambda>p. p \<noteq> None) parts
      then Inr \<lparr>segments = padSegments (map the parts)\<rparr>
      else Inl (''Malformed version: '' @ v))"

text \<open>Modelled from the spec: \<open>Segments\<close>, the numeric components of a version.\<close>

definition Segments :: "Version \<Rightarrow> nat list" where
  "Segments v = segments v"

text \<open>
  Modelled from the spec: \<open>Compare\<close> and \<open>GreaterThan\<close>, the comparison component by
  component, a missing component counting as zero.
\<close>

fun compareSegments :: "nat list \<Rightarrow> nat list \<Rightarrow> int" where
  "compareSegments [] [] = 0"
| "compareSegments (x # xs) [] = (if x = 0 then compareSegments xs [] else 1)"
| "compareSegments [] (y # ys) = (if y = 0 then compareSegments [] ys else - 1)"
| "compareSegments (x # xs) (y # ys) =
     (if x = y then compareSegments xs ys else if x < y then - 1 else 1)"

definition Compare :: "Version \<Rightarrow> Version \<Rightarrow> int" where
  "Compare v other = compareSegments (Segments v) (Segments other)"

definition GreaterThan :: "Version \<Rightarrow> Version \<Rightarrow> bool" where
  "GreaterThan v other = (Compare v other > 0)"

fun joinDot :: "string list \<Rightarrow> string" where
  "joinDot [] = []"
| "joinDot [x] = x"
| "joinDot (x # y # ys) = x @ ''.'' @ joinDot (y # ys)"

text \<open>Modelled from the spec: \<open>String\<close>, the components of a version joined by dots.\<close>

definition Version_String :: "Version \<Rightarrow> string" where
  "Version_String v = joinDot (map decimal (Segments v))"

section \<open>Simulators\<close>

text \<open>
  Modelled from the spec: \<open>simulator.InfoModel\<close> is "device name, opaque identifier,
  status string", and \<open>simulator.OsVersionSimulatorInfosMap\<close> maps a bucket key such as
  \<open>iOS 12.1\<close> to a list of them. Go visits the keys of a map in an order that changes
  from run to run: the map is the list of its entries in the order of this run's visit,
  and a theorem about every such list is about every order.
\<close>

record InfoModel =
  Name :: string
  ID :: string
  Status :: string

type_synonym OsVersionSimulatorInfosMap = "(string \<times> InfoModel list) list"

text \<open>The loop of \<open>getLatestIOSVersion\<close> over the keys, with \<open>latestVersionPtr\<close> passed along.\<close>

fun latestLoop :: "Version option \<Rightarrow> OsVersionSimulatorInfosMap \<Rightarrow> error + Version option" where
  "latestLoop latestVersionPtr [] = Inr latestVersionPtr"
| "latestLoop latestVersionPtr ((osVersion, infos) # rest) =
     (if \<not> HasPrefix osVersion ''iOS'' then latestLoop latestVersionPtr rest
      else
        (let versionStr = TrimSpace (TrimPrefix osVersion ''iOS'') in
         case NewVersion versionStr of
           Inl err \<Rightarrow> Inl (''Failed to parse version ('' @ versionStr @ ''), error: '' @ err)
         | Inr versionPtr \<Rightarrow>
             (case latestVersionPtr of
                None \<Rightarrow> latestLoop (Some versionPtr) rest
              | Some latest \<Rightarrow>
                  if GreaterThan versionPtr latest then latestLoop (Some versionPtr) rest
                  else latestLoop latestVersionPtr rest)))"

definition getLatestIOSVersion :: "OsVersionSimulatorInfosMap \<Rightarrow> error + string" where
  "getLatestIOSVersion osVersionSimulatorInfosMap =
     (case latestLoop None osVersionSimulatorInfosMap of
        Inl err \<Rightarrow> Inl err
      | Inr None \<Rightarrow> Inl ''Failed to determin latest iOS simulator version''
      | Inr (Some latestVersionPtr) \<Rightarrow>
          (let versionSegments = Segments latestVersionPtr in
           if length versionSegments < 2
           then Inl (''Invalid version created: '' @ Version_String latestVersionPtr
                     @ '', segments count < 2'')
           else Inr (''iOS '' @ decimal (versionSegments ! 0) @ ''.''
                     @ decimal (versionSegments ! 1))))"

text \<open>The loop of \<open>getSimulatorInfo\<close> over the entries of the bucket.\<close>

fun infosLoop :: "string \<Rightarrow> InfoModel list \<Rightarrow> InfoModel option" where
  "infosLoop deviceName [] = None"
| "infosLoop deviceName (info # infos) =
     (if Name info = deviceName then Some info else infosLoop deviceName infos)"

text \<open>
  \<open>getSimulatorInfo\<close>, given what \<open>simulator.GetOsVersionSimulatorInfosMap\<close> returned.
  On an error the Go function returns the zero \<open>InfoModel\<close> beside it; here the error
  alone.
\<close>

definition getSimulatorInfo ::
  "error + OsVersionSimulatorInfosMap \<Rightarrow> string \<Rightarrow> string \<Rightarrow> error + InfoModel" where
  "getSimulatorInfo directory osVersion deviceName =
     (case directory of
        Inl err \<Rightarrow> Inl err
      | Inr osVersionSimulatorInfosMap \<Rightarrow>
          (case (if osVersion = ''latest'' then getLatestIOSVersion osVersionSimulatorInfosMap
                 else Inr osVersion) of
             Inl err \<Rightarrow> Inl err
           | Inr osVersion' \<Rightarrow>
               (case map_of osVersionSimulatorInfosMap osVersion' of
                  None \<Rightarrow> Inl (''No simulators found for os version: '' @ osVersion')
                | Some infos \<Rightarrow>
                    (case infosLoop deviceName infos of
                       Some info \<Rightarrow> Inr info
                     | None \<Rightarrow>
                         Inl (''No simulators found for os version: ('' @ osVersion'
                              @ ''), device name: ('' @ deviceName @ '')'')))))"

section \<open>The step: configuration, collaborators and what a run does\<close>

record ConfigsModel =
  XamarinSolution :: string
  XamarinConfiguration :: string
  XamarinPlatform :: string
  TestToRun :: string
  SimulatorDevice :: string
  SimulatorOsVersion :: string
  DeployDir :: string

text \<open>
  Modelled from the spec: the builder's output types (\<open>constants.OutputType\<close>,
  \<open>builder.OutputModel\<close>, \<open>builder.ProjectOutputModel\<close>,
  \<open>builder.TestProjectOutputModel\<close>) are declared outside the source files. A project
  output is a "list of (outputType, path) pairs" where "one designated type marks an
  application bundle output"; a test project output is "{ outputPath,
  referencedProjectNames }".
\<close>

datatype OutputType = OutputTypeAPP | OutputTypeOther string

record OutputModel =
  Pth :: string
  OutputType :: OutputType

record ProjectOutputModel =
  Outputs :: "OutputModel list"

record TestProjectOutputModel =
  Output :: OutputModel
  ReferredProjectNames :: "string list"

text \<open>
  Everything \<open>main\<close> asks of the operating system and of the packages it imports is a
  field of the record \<open>World\<close>: what the call returns in this run. The test runner and
  the reads of the result log that follow it are indexed by the number of runs made
  before, since the file changes with every run. \<open>CollectXamarinUITestProjectOutputs\<close>
  gives the test projects in the order in which this run visits the map.
\<close>

record World =
  Getenv :: "string \<Rightarrow> string"
  IsPathExists :: "string \<Rightarrow> error + bool"
  GetOsVersionSimulatorInfosMap :: "error + OsVersionSimulatorInfosMap"
  Setenv :: "string \<Rightarrow> string \<Rightarrow> error option"
  SystemNunit3ConsolePath :: "error + string"
  BuilderNew :: "string \<Rightarrow> error option"
  BuildAllXamarinUITestAndReferredProjects :: "string \<Rightarrow> string \<Rightarrow> string list \<times> error option"
  CollectProjectOutputs :: "string \<Rightarrow> string \<Rightarrow> error + (string \<rightharpoonup> ProjectOutputModel)"
  CollectXamarinUITestProjectOutputs ::
    "string \<Rightarrow> string \<Rightarrow> (string \<times> TestProjectOutputModel) list \<times> string list \<times> error option"
  NunitNew :: "string \<Rightarrow> error option"
  Join :: "string \<Rightarrow> string \<Rightarrow> string"
  PrintableCommand :: "string \<Rightarrow> string \<Rightarrow> string \<Rightarrow> string"
  NunitRun :: "nat \<Rightarrow> error option"
  ResultLogExists :: "nat \<Rightarrow> string \<Rightarrow> error + bool"
  ReadStringFromFile :: "nat \<Rightarrow> string \<Rightarrow> error + string"
  Envman :: "string \<Rightarrow> string \<Rightarrow> error option"

text \<open>
  What a run does, in order: the lines it logs (the format and its arguments), the
  variables it sets in its own environment, the values it hands to \<open>envman\<close>, the test
  runs, and the call of \<open>os.Exit\<close>. An event stands for the call; whether the call
  failed is the world's answer. \<open>Run dll test pth\<close> is \<open>nunitConsole.Run()\<close> with the test
  assembly, the test to run and the path of the result log that the console model holds
  at the call.
\<close>

datatype level = Infof | Printf | Donef | Warnf | Errorf

datatype event =
  Println
  | Log level string "string list"
  | OsSetenv string string
  | EnvmanAdd string string
  | Run string string string
  | OsExit nat

definition createConfigsModelFromEnvs :: "World \<Rightarrow> ConfigsModel" where
  "createConfigsModelFromEnvs w =
     \<lparr>XamarinSolution = Getenv w ''xamarin_project'',
      XamarinConfiguration = Getenv w ''xamarin_configuration'',
      XamarinPlatform = Getenv w ''xamarin_platform'',
      TestToRun = Getenv w ''test_to_run'',
      SimulatorDevice = Getenv w ''simulator_device'',
      SimulatorOsVersion = Getenv w ''simulator_os_version'',
      DeployDir = Getenv w ''BITRISE_DEPLOY_DIR''\<rparr>"

definition ConfigsModel_print :: "ConfigsModel \<Rightarrow> event list" where
  "ConfigsModel_print configs =
     [Log Infof ''Build Configs:'' [],
      Log Printf ''- XamarinSolution: %s'' [XamarinSolution configs],
      Log Printf ''- XamarinConfiguration: %s'' [XamarinConfiguration configs],
      Log Printf ''- XamarinPlatform: %s'' [XamarinPlatform configs],
      Log Infof ''Xamarin UITest Configs:'' [],
      Log Printf ''- TestToRun: %s'' [TestToRun configs],
      Log Printf ''- SimulatorDevice: %s'' [SimulatorDevice configs],
      Log Printf ''- SimulatorOsVersion: %s'' [SimulatorOsVersion configs],
      Log Infof ''Other Configs:'' [],
      Log Printf ''- DeployDir: %s'' [DeployDir configs]]"

definition ConfigsModel_validate :: "World \<Rightarrow> ConfigsModel \<Rightarrow> error option" where
  "ConfigsModel_validate w configs =
     (if XamarinSolution configs = '''' then Some ''no XamarinSolution parameter specified''
      else
        (case IsPathExists w (XamarinSolution configs) of
           Inl err \<Rightarrow>
             Some (''failed to check if XamarinSolution exist at: '' @ XamarinSolution configs
                   @ '', error: '' @ err)
         | Inr exist \<Rightarrow>
             if \<not> exist then Some (''XamarinSolution not exist at: '' @ XamarinSolution configs)
             else if XamarinConfiguration configs = ''''
               then Some ''no XamarinConfiguration parameter specified''
             else if XamarinPlatform configs = ''''
               then Some ''no XamarinPlatform parameter specified''
             else if SimulatorDevice configs = ''''
               then Some ''no SimulatorDevice parameter specified''
             else None))"

text \<open>
  \<open>exportEnvironmentWithEnvman\<close> hands the value to \<open>envman add --key\<close> and returns its
  error.
\<close>

definition exportEnvironmentWithEnvman ::
  "World \<Rightarrow> string \<Rightarrow> string \<Rightarrow> event list \<times> error option" where
  "exportEnvironmentWithEnvman w keyStr valueStr =
     ([EnvmanAdd keyStr valueStr], Envman w keyStr valueStr)"

text \<open>
  The statement \<open>if err := exportEnvironmentWithEnvman(key, value); err != nil { log.Warnf(...) }\<close>,
  which \<open>failf\<close> and \<open>main\<close> write out for each key.
\<close>

definition exportOrWarn :: "World \<Rightarrow> string \<Rightarrow> string \<Rightarrow> event list" where
  "exportOrWarn w keyStr valueStr =
     (case exportEnvironmentWithEnvman w keyStr valueStr of
        (es, Some err) \<Rightarrow>
          es @ [Log Warnf ''Failed to export environment: %s, error: %s'' [keyStr, err]]
      | (es, None) \<Rightarrow> es)"

definition testResultLogContent :: "World \<Rightarrow> nat \<Rightarrow> string \<Rightarrow> string \<times> error option" where
  "testResultLogContent w n pth =
     (case ResultLogExists w n pth of
        Inl err \<Rightarrow> ('''', Some (''Failed to check if path ('' @ pth @ '') exist, error: '' @ err))
      | Inr exist \<Rightarrow>
          if \<not> exist then ('''', Some (''test result not exist at: '' @ pth))
          else
            (case ReadStringFromFile w n pth of
               Inl err \<Rightarrow> ('''', Some (''Failed to read file ('' @ pth @ ''), error: '' @ err))
             | Inr content \<Rightarrow> (content, None)))"

text \<open>\<open>failf\<close> never returns: its events are the last of the run.\<close>

definition failf :: "World \<Rightarrow> string \<Rightarrow> string list \<Rightarrow> event list" where
  "failf w format v =
     Log Errorf format v # exportOrWarn w ''BITRISE_XAMARIN_TEST_RESULT'' ''failed'' @ [OsExit 1]"

subsection \<open>The test loop of \<open>main\<close>\<close>

text \<open>
  How a loop of \<open>main\<close> ends: it runs to its end, or the process exits inside it, at a
  failed test run or at one of the other calls of \<open>failf\<close>.
\<close>

datatype ending = Continues | TestFailed | Aborted

text \<open>The loop over \<open>projectOutput.Outputs\<close>, with \<open>appPth\<close> passed along.\<close>

fun appPthLoop :: "string \<Rightarrow> OutputModel list \<Rightarrow> string" where
  "appPthLoop appPth [] = appPth"
| "appPthLoop appPth (output # outputs) =
     appPthLoop (if OutputType output = OutputTypeAPP then Pth output else appPth) outputs"

text \<open>
  Lines 325 to 343 of \<open>main\<close> when \<open>os.Setenv\<close> succeeds: the bundle path is put in
  \<open>APP_BUNDLE_PATH\<close>, the console model is given the test assembly and the test to run,
  and the test runner is run.
\<close>

definition testInvocation ::
  "World \<Rightarrow> ConfigsModel \<Rightarrow> string \<Rightarrow> string \<Rightarrow> TestProjectOutputModel \<Rightarrow> string \<Rightarrow> string
     \<Rightarrow> event list" where
  "testInvocation w configs resultLogPth testProjectName testProjectOutput projectName appPth =
     [OsSetenv ''APP_BUNDLE_PATH'' appPth,
      Println,
      Log Infof ''Testing (%s) against (%s)'' [testProjectName, projectName],
      Log Printf ''test dll: %s'' [Pth (Output testProjectOutput)],
      Log Printf ''app: %s'' [appPth],
      Println,
      Log Infof ''Running Xamarin UITest'' [],
      Log Donef ''$ %s''
        [PrintableCommand w (Pth (Output testProjectOutput)) (TestToRun configs) resultLogPth],
      Println,
      Run (Pth (Output testProjectOutput)) (TestToRun configs) resultLogPth]"

text \<open>Lines 345 to 347: the warning when the result log could not be read.\<close>

definition readWarning :: "error option \<Rightarrow> event list" where
  "readWarning readErr =
     (case readErr of
        Some e \<Rightarrow> [Log Warnf ''Failed to read test result, error: %s'' [e]]
      | None \<Rightarrow> [])"

text \<open>
  The loop over \<open>testProjectOutput.ReferredProjectNames\<close>. It passes along the variable
  \<open>resultLog\<close> and the number of test runs made so far, and returns them with its events
  and its ending.
\<close>

fun referredLoop ::
  "World \<Rightarrow> ConfigsModel \<Rightarrow> (string \<rightharpoonup> ProjectOutputModel) \<Rightarrow> string \<Rightarrow> string
     \<Rightarrow> TestProjectOutputModel \<Rightarrow> string \<Rightarrow> nat \<Rightarrow> string list
     \<Rightarrow> event list \<times> ending \<times> string \<times> nat" where
  "referredLoop w configs projectOutputMap resultLogPth testProjectName testProjectOutput
     resultLog n [] = ([], Continues, resultLog, n)"
| "referredLoop w configs projectOutputMap resultLogPth testProjectName testProjectOutput
     resultLog n (projectName # rest) =
     (case projectOutputMap projectName of
        None \<Rightarrow>
          referredLoop w configs projectOutputMap resultLogPth testProjectName testProjectOutput
            resultLog n rest
      | Some projectOutput \<Rightarrow>
          (let appPth = appPthLoop '''' (Outputs projectOutput) in
           if appPth = ''''
           then (failf w ''No app generated for project: %s'' [projectName],
                 Aborted, resultLog, n)
           else
             (case Setenv w ''APP_BUNDLE_PATH'' appPth of
                Some err \<Rightarrow>
                  (OsSetenv ''APP_BUNDLE_PATH'' appPth
                   # failf w ''Failed to set APP_BUNDLE_PATH environment, without this env test will fail, error: %s'' [err],
                   Aborted, resultLog, n)
              | None \<Rightarrow>
                  (let invocation =
                         testInvocation w configs resultLogPth testProjectName testProjectOutput
                           projectName appPth;
                       err = NunitRun w n;
                       (testLog, readErr) = testResultLogContent w n resultLogPth;
                       resultLog = testLog
                   in case err of
                        Some e \<Rightarrow>
                          (invocation @ readWarning readErr
                           @ (case parseErrorFromResultLog resultLog of
                                (errorMsg, Some perr) \<Rightarrow>
                                  [Log Warnf ''Failed to parse error message from result log, error: %s'' [perr]]
                              | (errorMsg, None) \<Rightarrow>
                                  if errorMsg \<noteq> '''' then [Log Errorf ''%s'' [errorMsg]] else [])
                           @ (if resultLog \<noteq> ''''
                              then exportOrWarn w ''BITRISE_XAMARIN_TEST_FULL_RESULTS_TEXT'' resultLog
                              else [])
                           @ failf w ''Test failed, error: %s'' [e],
                           TestFailed, resultLog, Suc n)
                      | None \<Rightarrow>
                          (case referredLoop w configs projectOutputMap resultLogPth testProjectName
                                  testProjectOutput resultLog (Suc n) rest of
                             (es, r) \<Rightarrow> (invocation @ readWarning readErr @ es, r))))))"

text \<open>The loop over \<open>testProjectOutputMap\<close>, in the order of this run's visit.\<close>

fun testProjectsLoop ::
  "World \<Rightarrow> ConfigsModel \<Rightarrow> (string \<rightharpoonup> ProjectOutputModel) \<Rightarrow> string \<Rightarrow> string \<Rightarrow> nat
     \<Rightarrow> (string \<times> TestProjectOutputModel) list \<Rightarrow> event list \<times> ending \<times> string \<times> nat" where
  "testProjectsLoop w configs projectOutputMap resultLogPth resultLog n [] =
     ([], Continues, resultLog, n)"
| "testProjectsLoop w configs projectOutputMap resultLogPth resultLog n
     ((testProjectName, testProjectOutput) # rest) =
     (if length (ReferredProjectNames testProjectOutput) = 0
      then
        (case testProjectsLoop w configs projectOutputMap resultLogPth resultLog n rest of
           (es, r) \<Rightarrow>
             (Log Warnf ''Test project (%s) does not refers to any project, skipping...''
                [testProjectName] # es, r))
      else
        (case referredLoop w configs projectOutputMap resultLogPth testProjectName
                testProjectOutput resultLog n (ReferredProjectNames testProjectOutput) of
           (es, Continues, resultLog', n') \<Rightarrow>
             (case testProjectsLoop w configs projectOutputMap resultLogPth resultLog' n' rest of
                (es', r) \<Rightarrow> (es @ es', r))
         | (es, exited, resultLog', n') \<Rightarrow> (es, exited, resultLog', n')))"

text \<open>
  Lines 289 to 376 of \<open>main\<close>, the part headed \<open>Run nunit tests\<close>: the console model, the
  path of the result log, the loop, and the two exports after it.
\<close>

definition runNunitTests ::
  "World \<Rightarrow> ConfigsModel \<Rightarrow> string \<Rightarrow> (string \<rightharpoonup> ProjectOutputModel)
     \<Rightarrow> (string \<times> TestProjectOutputModel) list \<Rightarrow> event list" where
  "runNunitTests w configs nunitConsolePth projectOutputMap testProjectOutputMap =
     (case NunitNew w nunitConsolePth of
        Some err \<Rightarrow> failf w ''Failed to create nunit console model, error: %s'' [err]
      | None \<Rightarrow>
          (let resultLogPth = Join w (DeployDir configs) ''TestResult.xml'' in
           case testProjectsLoop w configs projectOutputMap resultLogPth '''' 0
                  testProjectOutputMap of
             (es, Continues, resultLog, n) \<Rightarrow>
               es @ exportOrWarn w ''BITRISE_XAMARIN_TEST_RESULT'' ''succeeded''
               @ (if resultLog \<noteq> ''''
                  then exportOrWarn w ''BITRISE_XAMARIN_TEST_FULL_RESULTS_TEXT'' resultLog
                  else [])
           | (es, exited, resultLog, n) \<Rightarrow> es))"

text \<open>
  \<open>main\<close>, lines 207 to 286 and then \<open>runNunitTests\<close>. The callback handed to the builder
  only prints, and is called by the builder: its lines are not among the events.
\<close>

definition main :: "World \<Rightarrow> event list" where
  "main w =
     (let configs = createConfigsModelFromEnvs w in
      Println # ConfigsModel_print configs
      @ (case ConfigsModel_validate w configs of
           Some err \<Rightarrow> failf w ''Issue with input: %s'' [err]
         | None \<Rightarrow>
      [Println, Log Infof ''Collecting simulator info...'' []]
      @ (case getSimulatorInfo (GetOsVersionSimulatorInfosMap w) (SimulatorOsVersion configs)
               (SimulatorDevice configs) of
           Inl err \<Rightarrow> failf w ''Failed to get simulator infos, error: %s'' [err]
         | Inr simulatorInfo \<Rightarrow>
      [Log Donef ''Simulator (%s), id: (%s), status: %s''
         [Name simulatorInfo, ID simulatorInfo, Status simulatorInfo],
       OsSetenv ''IOS_SIMULATOR_UDID'' (ID simulatorInfo)]
      @ (case Setenv w ''IOS_SIMULATOR_UDID'' (ID simulatorInfo) of
           Some err \<Rightarrow> failf w ''Failed to export simulator UDID, error: %s'' [err]
         | None \<Rightarrow>
        (case SystemNunit3ConsolePath w of
           Inl err \<Rightarrow>
             failf w ''Failed to get system insatlled nunit3-console.exe path, error: %s'' [err]
         | Inr nunitConsolePth \<Rightarrow>
      [Println,
       Log Infof ''Building all iOS Xamarin UITest and Referred Projects in solution: %s''
         [XamarinSolution configs]]
      @ (case BuilderNew w (XamarinSolution configs) of
           Some err \<Rightarrow> failf w ''Failed to create xamarin builder, error: %s'' [err]
         | None \<Rightarrow>
        (case BuildAllXamarinUITestAndReferredProjects w (XamarinConfiguration configs)
                (XamarinPlatform configs) of
           (warnings, err) \<Rightarrow>
      map (\<lambda>warning. Log Warnf warning []) warnings
      @ (case err of
           Some err \<Rightarrow> failf w ''Build failed, error: %s'' [err]
         | None \<Rightarrow>
        (case CollectProjectOutputs w (XamarinConfiguration configs) (XamarinPlatform configs) of
           Inl err \<Rightarrow> failf w ''Failed to collect project outputs, error: %s'' [err]
         | Inr projectOutputMap \<Rightarrow>
        (case CollectXamarinUITestProjectOutputs w (XamarinConfiguration configs)
                (XamarinPlatform configs) of
           (testProjectOutputMap, warnings, err) \<Rightarrow>
      map (\<lambda>warning. Log Warnf warning []) warnings
      @ (case err of
           Some err \<Rightarrow> failf w ''Failed to collect test project output, error: %s'' [err]
         | None \<Rightarrow>
             runNunitTests w configs nunitConsolePth projectOutputMap
               testProjectOutputMap)))))))))))"

subsection \<open>Reading a run\<close>

text \<open>The values a run hands to \<open>envman\<close> under a key, in order.\<close>

fun published :: "string \<Rightarrow> event list \<Rightarrow> string list" where
  "published keyStr [] = []"
| "published keyStr (EnvmanAdd k v # es) =
     (if k = keyStr then v # published keyStr es else published keyStr es)"
| "published keyStr (e # es) = published keyStr es"

text \<open>
  The lines of a text as \<open>parseErrorFromResultLog\<close> reads them when no line is too long
  for the scanner: every line of the text, without its end-of-line marker and trimmed.
\<close>

definition docLines :: "string \<Rightarrow> string list" where
  "docLines content = map (\<lambda>l. TrimSpace (dropCR l)) (rawLines content)"

section \<open>Example inputs\<close>

text \<open>The buckets of the spec's scenario for \<open>latest\<close>.\<close>

definition scenarioBuckets :: OsVersionSimulatorInfosMap where
  "scenarioBuckets =
     [(''iOS 12.1'', [\<lparr>Name = ''iPhone 8'', ID = ''X'', Status = ''Shutdown''\<rparr>]),
      (''iOS 11.4'', [\<lparr>Name = ''iPhone 8'', ID = ''Y'', Status = ''Shutdown''\<rparr>])]"

text \<open>
  A run in which every collaborator succeeds: one test project \<open>UITest\<close> that refers to
  \<open>App1\<close>, which has an application bundle, and then to \<open>App2\<close>, which has none.
\<close>

definition exampleOutputs :: "string \<rightharpoonup> ProjectOutputModel" where
  "exampleOutputs =
     [''App1'' \<mapsto> \<lparr>Outputs = [\<lparr>Pth = ''App1.app'', OutputType = OutputTypeAPP\<rparr>]\<rparr>,
      ''App2'' \<mapsto> \<lparr>Outputs = [\<lparr>Pth = ''App2.dll'', OutputType = OutputTypeOther ''dll''\<rparr>]\<rparr>]"

definition exampleTest :: TestProjectOutputModel where
  "exampleTest =
     \<lparr>Output = \<lparr>Pth = ''UITest.dll'', OutputType = OutputTypeOther ''dll''\<rparr>,
      ReferredProjectNames = [''App1'', ''App2'']\<rparr>"

definition exampleWorld :: World where
  "exampleWorld =
     \<lparr>Getenv = (\<lambda>k. if k = ''xamarin_project'' then ''App.sln''
                   else if k = ''xamarin_configuration'' then ''Release''
                   else if k = ''xamarin_platform'' then ''iPhoneSimulator''
                   else if k = ''simulator_device'' then ''iPhone 8''
                   else if k = ''simulator_os_version'' then ''latest''
                   else if k = ''BITRISE_DEPLOY_DIR'' then ''deploy''
                   else ''''),
      IsPathExists = (\<lambda>pth. Inr True),
      GetOsVersionSimulatorInfosMap = Inr scenarioBuckets,
      Setenv = (\<lambda>k v. None),
      SystemNunit3ConsolePath = Inr ''nunit3-console.exe'',
      BuilderNew = (\<lambda>solution. None),
      BuildAllXamarinUITestAndReferredProjects = (\<lambda>configuration platform. ([], None)),
      CollectProjectOutputs = (\<lambda>configuration platform. Inr exampleOutputs),
      CollectXamarinUITestProjectOutputs =
        (\<lambda>configuration platform. ([(''UITest'', exampleTest)], [], None)),
      NunitNew = (\<lambda>pth. None),
      Join = (\<lambda>dir file. dir @ ''/'' @ file),
      PrintableCommand = (\<lambda>dll test pth. ''mono nunit3-console.exe '' @ dll),
      NunitRun = (\<lambda>n. None),
      ResultLogExists = (\<lambda>n pth. Inr True),
      ReadStringFromFile = (\<lambda>n pth. Inr ''<test-run/>''),
      Envman = (\<lambda>k v. None)\<rparr>"

text \<open>
  The same run with \<open>UITest\<close> referring to \<open>App1\<close> alone, so that it ends well; with a
  test run that fails and leaves a result log; and with a test run that fails and leaves
  an empty result log.
\<close>

definition passingTest :: TestProjectOutputModel where
  "passingTest = exampleTest\<lparr>ReferredProjectNames := [''App1'']\<rparr>"

definition passingWorld :: World where
  "passingWorld =
     exampleWorld\<lparr>CollectXamarinUITestProjectOutputs :=
       (\<lambda>configuration platform. ([(''UITest'', passingTest)], [], None))\<rparr>"

definition failingWorld :: World where
  "failingWorld =
     exampleWorld\<lparr>NunitRun := (\<lambda>n. Some ''exit status 1''),
       ReadStringFromFile := (\<lambda>n pth. Inr ''<failure>\<newline><message>boom</message>\<newline>'')\<rparr>"

definition silentWorld :: World where
  "silentWorld =
     exampleWorld\<lparr>NunitRun := (\<lambda>n. Some ''exit status 1''),
       ReadStringFromFile := (\<lambda>n pth. Inr '''')\<rparr>"


section \<open>Properties of parseErrorFromResultLog\<close>

lemma HasPrefix_message_not_failure: "HasPrefix b ''<message>'' \<Longrightarrow> b \<noteq> ''<failure>''"
  by (auto simp: HasPrefix_def)

text \<open>
  Where no trimmed line that starts with the message marker comes right after a line that
  is the failure marker, the loop leaves \<open>lastFailureMessage\<close> as it was.
\<close>

lemma parseLoop_noPair:
  assumes "\<nexists>xs b ys. map TrimSpace ts = xs @ ''<failure>'' # b # ys \<and> HasPrefix b ''<message>''"
    and "f \<longrightarrow> ts = [] \<or> \<not> HasPrefix (TrimSpace (hd ts)) ''<message>''"
  shows "parseLoop f l ts = l"
  using assms
proof (induction ts arbitrary: f)
  case Nil
  then show ?case by simp
next
  case (Cons t ts)
  have tail: "\<nexists>xs b ys. map TrimSpace ts = xs @ ''<failure>'' # b # ys \<and> HasPrefix b ''<message>''"
  proof
    assume "\<exists>xs b ys. map TrimSpace ts = xs @ ''<failure>'' # b # ys \<and> HasPrefix b ''<message>''"
    then obtain xs b ys
      where "map TrimSpace ts = xs @ ''<failure>'' # b # ys" "HasPrefix b ''<message>''"
      by blast
    then have "map TrimSpace (t # ts) = (TrimSpace t # xs) @ ''<failure>'' # b # ys
        \<and> HasPrefix b ''<message>''"
      by simp
    with Cons.prems(1) show False by blast
  qed
  show ?case
  proof (cases "TrimSpace t = ''<failure>''")
    case True
    have "ts = [] \<or> \<not> HasPrefix (TrimSpace (hd ts)) ''<message>''"
    proof (cases ts)
      case Nil
      then show ?thesis by simp
    next
      case (Cons t' ts')
      have "\<not> HasPrefix (TrimSpace t') ''<message>''"
      proof
        assume "HasPrefix (TrimSpace t') ''<message>''"
        then have "map TrimSpace (t # ts) = [] @ ''<failure>'' # TrimSpace t' # map TrimSpace ts'
            \<and> HasPrefix (TrimSpace t') ''<message>''"
          using True Cons by simp
        with Cons.prems(1) show False by blast
      qed
      then show ?thesis using Cons by simp
    qed
    then have "parseLoop True l ts = l" using Cons.IH[OF tail] by simp
    then show ?thesis using True by simp
  next
    case False
    have "parseLoop False l ts = l" using Cons.IH[OF tail] by simp
    then show ?thesis using False Cons.prems(2) by (auto simp: Let_def)
  qed
qed

text \<open>
  Where the trimmed lines hold a failure marker followed by a message line \<open>b\<close>, and no
  such pair later, the loop ends with \<open>b\<close>.
\<close>

lemma parseLoop_last_pair:
  assumes "map TrimSpace ts = xs @ ''<failure>'' # b # ys" and "HasPrefix b ''<message>''"
    and "\<nexists>xs' b' ys'. b # ys = xs' @ ''<failure>'' # b' # ys' \<and> HasPrefix b' ''<message>''"
  shows "parseLoop f l ts = b"
  using assms(1)
proof (induction xs arbitrary: ts f l)
  case Nil
  then obtain t t2 ts2 where ts: "ts = t # t2 # ts2" and t: "TrimSpace t = ''<failure>''"
    and t2: "TrimSpace t2 = b" and ys: "map TrimSpace ts2 = ys"
    by (auto simp: map_eq_Cons_conv)
  have nf: "b \<noteq> ''<failure>''" using assms(2) by (rule HasPrefix_message_not_failure)
  have none: "\<nexists>xs' b' ys'. map TrimSpace ts2 = xs' @ ''<failure>'' # b' # ys'
      \<and> HasPrefix b' ''<message>''"
  proof
    assume "\<exists>xs' b' ys'. map TrimSpace ts2 = xs' @ ''<failure>'' # b' # ys'
      \<and> HasPrefix b' ''<message>''"
    then obtain xs' b' ys' where "ys = xs' @ ''<failure>'' # b' # ys'" "HasPrefix b' ''<message>''"
      using ys by auto
    then have "b # ys = (b # xs') @ ''<failure>'' # b' # ys' \<and> HasPrefix b' ''<message>''"
      by simp
    with assms(3) show False by blast
  qed
  have "parseLoop False b ts2 = b" by (rule parseLoop_noPair[OF none]) simp
  then show ?case using ts t t2 nf assms(2) by (simp add: Let_def)
next
  case (Cons x xs)
  then obtain t ts' where ts: "ts = t # ts'"
    and rest: "map TrimSpace ts' = xs @ ''<failure>'' # b # ys"
    by (auto simp: map_eq_Cons_conv)
  have "\<And>f l. parseLoop f l ts' = b" using Cons.IH[OF rest] .
  then show ?case using ts by (simp add: Let_def)
qed

text \<open>The lines the scanner delivers are the first lines of the text.\<close>

lemma scanLines_prefix:
  "\<exists>rest. docLines content = map TrimSpace (scanLines content) @ rest"
proof -
  let ?P = "\<lambda>l. length l < MaxScanTokenSize"
  have "rawLines content = takeWhile ?P (rawLines content) @ dropWhile ?P (rawLines content)"
    by simp
  then have "docLines content = map (\<lambda>l. TrimSpace (dropCR l)) (takeWhile ?P (rawLines content))
      @ map (\<lambda>l. TrimSpace (dropCR l)) (dropWhile ?P (rawLines content))"
    unfolding docLines_def by (metis map_append)
  then show ?thesis by (auto simp: scanLines_def comp_def)
qed

text \<open>
  Claim C6. \<open>parseErrorFromResultLog\<close> returns the empty string and no error when no
  line of the text that starts with the message marker comes right after a line that is
  the failure marker: when the text has no such pair at all, and so too when every
  message line is kept from the failure marker before it by a line between them. Only a
  message line on the very next line after a failure marker counts.
\<close>

theorem parseErrorFromResultLog_no_adjacent_pair:
  assumes "\<forall>i. Suc i < length (docLines content) \<longrightarrow> docLines content ! i = ''<failure>''
     \<longrightarrow> \<not> HasPrefix (docLines content ! Suc i) ''<message>''"
  shows "parseErrorFromResultLog content = ('''', None)"
proof -
  obtain rest where split: "docLines content = map TrimSpace (scanLines content) @ rest"
    using scanLines_prefix by blast
  have none: "\<nexists>xs b ys. map TrimSpace (scanLines content) = xs @ ''<failure>'' # b # ys
      \<and> HasPrefix b ''<message>''"
  proof
    assume "\<exists>xs b ys. map TrimSpace (scanLines content) = xs @ ''<failure>'' # b # ys
      \<and> HasPrefix b ''<message>''"
    then obtain xs b ys
      where eq: "map TrimSpace (scanLines content) = xs @ ''<failure>'' # b # ys"
        and msg: "HasPrefix b ''<message>''" by blast
    have doc: "docLines content = xs @ ''<failure>'' # b # (ys @ rest)" using split eq by simp
    have "Suc (length xs) < length (docLines content)" using doc by simp
    moreover have "docLines content ! length xs = ''<failure>''" using doc by simp
    moreover have "docLines content ! Suc (length xs) = b" using doc by (simp add: nth_append)
    ultimately show False using assms msg by blast
  qed
  have "parseLoop False '''' (scanLines content) = ''''"
    by (rule parseLoop_noPair[OF none]) simp
  then show ?thesis by (simp add: parseErrorFromResultLog_def)
qed

lemma docLines_separated:
  "docLines ''<failure>\<newline>other\<newline><message>x</message>\<newline>''
     = [''<failure>'', ''other'', ''<message>x</message>'']"
  by (simp add: docLines_def dropCR_def TrimSpace_def isSpace1_def isSpace2_def isSpace3_def)

theorem parseErrorFromResultLog_no_adjacent_pair_witness:
  "parseErrorFromResultLog ''<failure>\<newline>other\<newline><message>x</message>\<newline>'' = ('''', None)"
  by (rule parseErrorFromResultLog_no_adjacent_pair)
     (auto simp: docLines_separated nth_Cons' HasPrefix_def)

text \<open>A line with no \<open>\n\<close> in it, followed by \<open>\n\<close>, is the first line of the text.\<close>

lemma rawLines_line:
  "CHR 0x0A \<notin> set l \<Longrightarrow> rawLines (l @ CHR 0x0A # rest) = l # rawLines rest"
  by (induction l) auto

lemma scanLines_all:
  assumes "\<forall>l\<in>set (rawLines content). length l < MaxScanTokenSize"
  shows "map TrimSpace (scanLines content) = docLines content"
proof -
  have eq: "takeWhile (\<lambda>l. length l < MaxScanTokenSize) (rawLines content) = rawLines content"
    using assms by (simp add: takeWhile_eq_all_conv)
  show ?thesis unfolding scanLines_def docLines_def eq by simp
qed

text \<open>
  With no line too long for the scanner, the whole text is read, and the message line of
  the last pair of a failure marker and a message line is returned.
\<close>

lemma parseErrorFromResultLog_last_pair:
  assumes "\<forall>l\<in>set (rawLines content). length l < MaxScanTokenSize"
    and "docLines content = xs @ ''<failure>'' # b # ys" and "HasPrefix b ''<message>''"
    and "\<nexists>xs' b' ys'. b # ys = xs' @ ''<failure>'' # b' # ys' \<and> HasPrefix b' ''<message>''"
  shows "parseErrorFromResultLog content = (b, None)"
proof -
  have "map TrimSpace (scanLines content) = xs @ ''<failure>'' # b # ys"
    using scanLines_all[OF assms(1)] assms(2) by simp
  from parseLoop_last_pair[OF this assms(3,4)] show ?thesis
    by (simp add: parseErrorFromResultLog_def)
qed

lemma parseErrorFromResultLog_two_pairs:
  "parseErrorFromResultLog
     ''<failure>\<newline><message>A</message>\<newline>ok\<newline><failure>\<newline><message>B</message>\<newline>''
   = (''<message>B</message>'', None)"
  by (simp add: parseErrorFromResultLog_def scanLines_def MaxScanTokenSize_def dropCR_def
      TrimSpace_def isSpace1_def isSpace2_def isSpace3_def HasPrefix_def)

text \<open>
  Claim C3. The claim has \<open>parseErrorFromResultLog\<close> return the message line of the last
  pair of a failure marker and a message line in the text. The scanner stops at a line of
  \<open>MaxScanTokenSize\<close> bytes or more, and the function never looks at \<open>scanner.Err()\<close>:
  with such a line between two pairs, the text below has the message of the first pair
  returned, and no error.
\<close>

theorem parseErrorFromResultLog_long_line:
  "parseErrorFromResultLog
     (''<failure>\<newline><message>A</message>\<newline>'' @ replicate 65536 CHR ''x''
      @ ''\<newline><failure>\<newline><message>B</message>\<newline>'')
   = (''<message>A</message>'', None)"
proof -
  have long: "rawLines (replicate 65536 CHR ''x'' @ ''\<newline><failure>\<newline><message>B</message>\<newline>'')
      = replicate 65536 CHR ''x'' # rawLines ''<failure>\<newline><message>B</message>\<newline>''"
    using rawLines_line[of "replicate 65536 CHR ''x''" "''<failure>\<newline><message>B</message>\<newline>''"]
    by simp
  have "rawLines (''<failure>\<newline><message>A</message>\<newline>'' @ replicate 65536 CHR ''x''
      @ ''\<newline><failure>\<newline><message>B</message>\<newline>'')
    = [''<failure>'', ''<message>A</message>'', replicate 65536 CHR ''x'', ''<failure>'',
       ''<message>B</message>'']"
    by (simp add: long)
  then have "scanLines (''<failure>\<newline><message>A</message>\<newline>'' @ replicate 65536 CHR ''x''
      @ ''\<newline><failure>\<newline><message>B</message>\<newline>'')
    = [''<failure>'', ''<message>A</message>'']"
    by (simp add: scanLines_def MaxScanTokenSize_def dropCR_def)
  then show ?thesis
    by (simp add: parseErrorFromResultLog_def TrimSpace_def isSpace1_def isSpace2_def
        isSpace3_def HasPrefix_def)
qed

section \<open>Properties of the simulator selection\<close>

lemmas go_eval = HasPrefix_def TrimPrefix_def TrimSpace_def isSpace1_def isSpace2_def isSpace3_def
  NewVersion_def parseDigits_def isDigit_def padSegments_def GreaterThan_def Compare_def
  Segments_def Let_def

subsection \<open>The comparison of versions is a total preorder\<close>

lemma compareSegments_Nil_right: "compareSegments xs [] = 0 \<or> compareSegments xs [] = 1"
  by (induction xs) auto

lemma compareSegments_Nil_left: "compareSegments [] ys = 0 \<or> compareSegments [] ys = - 1"
  by (induction ys) auto

lemma compareSegments_refl: "compareSegments xs xs = 0"
  by (induction xs) auto

lemma compareSegments_swap: "compareSegments ys xs = - compareSegments xs ys"
  by (induction xs ys rule: compareSegments.induct) auto

lemma compareSegments_zeros_right:
  "compareSegments xs [] = 0 \<Longrightarrow> compareSegments xs zs = compareSegments [] zs"
proof (induction xs arbitrary: zs)
  case Nil
  then show ?case by simp
next
  case (Cons x xs)
  then show ?case by (cases zs) (auto split: if_splits)
qed

lemma compareSegments_zeros_left:
  "compareSegments [] ys = 0 \<Longrightarrow> compareSegments xs ys = compareSegments xs []"
  using compareSegments_zeros_right[of ys xs] compareSegments_swap[of "[]" ys]
    compareSegments_swap[of xs ys] compareSegments_swap[of "[]" xs]
  by auto

lemma compareSegments_le_trans:
  "compareSegments xs ys \<le> 0 \<Longrightarrow> compareSegments ys zs \<le> 0 \<Longrightarrow> compareSegments xs zs \<le> 0"
proof (induction xs arbitrary: ys zs)
  case Nil
  then show ?case using compareSegments_Nil_left[of zs] by auto
next
  case (Cons x xs)
  show ?case
  proof (cases ys)
    case Nil
    then have z: "compareSegments (x # xs) [] = 0"
      using Cons.prems(1) compareSegments_Nil_right[of "x # xs"] by auto
    show ?thesis
      using compareSegments_zeros_right[OF z, of zs] compareSegments_Nil_left[of zs] by auto
  next
    case yc: (Cons y ys')
    show ?thesis
    proof (cases zs)
      case Nil
      then have "compareSegments ys [] = 0"
        using Cons.prems(2) compareSegments_Nil_right[of ys] by auto
      then have "compareSegments [] ys = 0" using compareSegments_swap[of ys "[]"] by simp
      from compareSegments_zeros_left[OF this, of "x # xs"] show ?thesis
        using Cons.prems(1) Nil by simp
    next
      case zc: (Cons z zs')
      show ?thesis using Cons.prems Cons.IH[of ys' zs'] yc zc
        by (auto split: if_splits)
    qed
  qed
qed

lemma not_GreaterThan: "\<not> GreaterThan a b \<longleftrightarrow> Compare a b \<le> 0"
  by (auto simp: GreaterThan_def)

lemma Compare_le_trans: "Compare a b \<le> 0 \<Longrightarrow> Compare b c \<le> 0 \<Longrightarrow> Compare a c \<le> 0"
  unfolding Compare_def by (rule compareSegments_le_trans)

lemma Compare_GreaterThan_le: "GreaterThan a b \<Longrightarrow> Compare b a \<le> 0"
  using compareSegments_swap[of "Segments b" "Segments a"]
  by (simp add: GreaterThan_def Compare_def)

lemma Compare_refl: "Compare a a = 0"
  by (simp add: Compare_def compareSegments_refl)

lemma NewVersion_length: "NewVersion s = Inr v \<Longrightarrow> 3 \<le> length (Segments v)"
  by (auto simp: NewVersion_def Let_def padSegments_def Segments_def split: if_splits)

subsection \<open>getLatestIOSVersion\<close>

lemma latestLoop_filter:
  "latestLoop l (filter (\<lambda>(k, infos). HasPrefix k ''iOS'') m) = latestLoop l m"
  by (induction m arbitrary: l) (auto simp: Let_def split: sum.splits option.splits)

lemma latestLoop_parse_failure:
  assumes "\<forall>(k', infos')\<in>set pre. HasPrefix k' ''iOS'' \<longrightarrow>
             (\<exists>v. NewVersion (TrimSpace (TrimPrefix k' ''iOS'')) = Inr v)"
    and "HasPrefix k ''iOS''" and "NewVersion (TrimSpace (TrimPrefix k ''iOS'')) = Inl e"
  shows "latestLoop l (pre @ (k, infos) # post)
     = Inl (''Failed to parse version ('' @ TrimSpace (TrimPrefix k ''iOS'') @ ''), error: '' @ e)"
  using assms(1)
proof (induction pre arbitrary: l)
  case Nil
  then show ?case using assms(2,3) by (simp add: Let_def)
next
  case (Cons p pre)
  obtain k' i' where p: "p = (k', i')" by (cases p)
  have IH: "\<And>l. latestLoop l (pre @ (k, infos) # post)
     = Inl (''Failed to parse version ('' @ TrimSpace (TrimPrefix k ''iOS'') @ ''), error: '' @ e)"
    using Cons by simp
  show ?case using Cons.prems p IH
    by (auto simp: Let_def split: sum.splits option.splits)
qed

text \<open>
  Claim C7. In the order in which the keys are visited, the first key with the prefix
  \<open>iOS\<close> whose suffix does not parse ends the resolution with an error that names the
  suffix, whatever keys follow it; and the keys without the prefix change nothing: the
  result is that of the map without them.
\<close>

theorem getLatestIOSVersion_parse_failure:
  assumes "\<forall>(k', infos')\<in>set pre. HasPrefix k' ''iOS'' \<longrightarrow>
             (\<exists>v. NewVersion (TrimSpace (TrimPrefix k' ''iOS'')) = Inr v)"
    and "HasPrefix k ''iOS''" and "NewVersion (TrimSpace (TrimPrefix k ''iOS'')) = Inl e"
  shows "getLatestIOSVersion (pre @ (k, infos) # post)
     = Inl (''Failed to parse version ('' @ TrimSpace (TrimPrefix k ''iOS'') @ ''), error: '' @ e)
     \<and> getLatestIOSVersion (filter (\<lambda>(k, infos). HasPrefix k ''iOS'') m) = getLatestIOSVersion m"
  using latestLoop_parse_failure[OF assms] by (simp add: getLatestIOSVersion_def latestLoop_filter)

theorem getLatestIOSVersion_parse_failure_witness:
  "getLatestIOSVersion [(''tvOS 12.0'', []), (''iOS 11.4'', []), (''iOS beta'', []), (''iOS 12.1'', [])]
     = Inl ''Failed to parse version (beta), error: Malformed version: beta''
   \<and> getLatestIOSVersion (filter (\<lambda>(k, infos). HasPrefix k ''iOS'') scenarioBuckets)
     = getLatestIOSVersion scenarioBuckets"
proof -
  have p: "\<forall>(k', infos')\<in>set [(''tvOS 12.0'', []), (''iOS 11.4'', [])]. HasPrefix k' ''iOS'' \<longrightarrow>
             (\<exists>v. NewVersion (TrimSpace (TrimPrefix k' ''iOS'')) = Inr v)"
    by (simp add: go_eval)
  have k: "HasPrefix ''iOS beta'' ''iOS''" by (simp add: HasPrefix_def)
  have e: "NewVersion (TrimSpace (TrimPrefix ''iOS beta'' ''iOS'')) = Inl ''Malformed version: beta''"
    by (simp add: go_eval)
  have t: "TrimSpace (TrimPrefix ''iOS beta'' ''iOS'') = ''beta''" by (simp add: go_eval)
  show ?thesis
    using getLatestIOSVersion_parse_failure[OF p k e, of "[]" "[(''iOS 12.1'', [])]" scenarioBuckets]
    by (simp add: t)
qed

text \<open>
  With every key of the prefix parsing, the loop started with \<open>latestVersionPtr = l\<close> ends
  with a version that is \<open>l\<close> or one of the parsed ones, and that none of them is greater
  than.
\<close>

lemma latestLoop_greatest:
  assumes "\<forall>(k, infos)\<in>set m. HasPrefix k ''iOS'' \<longrightarrow>
             (\<exists>v. NewVersion (TrimSpace (TrimPrefix k ''iOS'')) = Inr v)"
  shows "\<exists>r. latestLoop (Some l) m = Inr (Some r)
     \<and> (r = l \<or> (\<exists>(k, infos)\<in>set m. HasPrefix k ''iOS''
                   \<and> NewVersion (TrimSpace (TrimPrefix k ''iOS'')) = Inr r))
     \<and> Compare l r \<le> 0
     \<and> (\<forall>(k, infos)\<in>set m. HasPrefix k ''iOS'' \<longrightarrow>
          (\<forall>v. NewVersion (TrimSpace (TrimPrefix k ''iOS'')) = Inr v \<longrightarrow> Compare v r \<le> 0))"
  using assms
proof (induction m arbitrary: l)
  case Nil
  then show ?case by (simp add: Compare_refl)
next
  case (Cons p m)
  obtain k i where p: "p = (k, i)" by (cases p)
  have rest: "\<forall>(k, infos)\<in>set m. HasPrefix k ''iOS'' \<longrightarrow>
             (\<exists>v. NewVersion (TrimSpace (TrimPrefix k ''iOS'')) = Inr v)"
    using Cons.prems by simp
  show ?case
  proof (cases "HasPrefix k ''iOS''")
    case False
    from Cons.IH[OF rest, of l] show ?thesis using p False by auto
  next
    case True
    then obtain v where v: "NewVersion (TrimSpace (TrimPrefix k ''iOS'')) = Inr v"
      using Cons.prems p by auto
    show ?thesis
    proof (cases "GreaterThan v l")
      case gt: True
      from Cons.IH[OF rest, of v] obtain r where r: "latestLoop (Some v) m = Inr (Some r)"
        "r = v \<or> (\<exists>(k, infos)\<in>set m. HasPrefix k ''iOS''
                   \<and> NewVersion (TrimSpace (TrimPrefix k ''iOS'')) = Inr r)"
        "Compare v r \<le> 0"
        "\<forall>(k, infos)\<in>set m. HasPrefix k ''iOS'' \<longrightarrow>
          (\<forall>v. NewVersion (TrimSpace (TrimPrefix k ''iOS'')) = Inr v \<longrightarrow> Compare v r \<le> 0)"
        by blast
      have "Compare l r \<le> 0" using Compare_le_trans[OF Compare_GreaterThan_le[OF gt] r(3)] .
      then show ?thesis using p True v gt r by (auto simp: Let_def)
    next
      case ngt: False
      from Cons.IH[OF rest, of l] obtain r where r: "latestLoop (Some l) m = Inr (Some r)"
        "r = l \<or> (\<exists>(k, infos)\<in>set m. HasPrefix k ''iOS''
                   \<and> NewVersion (TrimSpace (TrimPrefix k ''iOS'')) = Inr r)"
        "Compare l r \<le> 0"
        "\<forall>(k, infos)\<in>set m. HasPrefix k ''iOS'' \<longrightarrow>
          (\<forall>v. NewVersion (TrimSpace (TrimPrefix k ''iOS'')) = Inr v \<longrightarrow> Compare v r \<le> 0)"
        by blast
      have "Compare v l \<le> 0" using ngt by (simp add: not_GreaterThan)
      then have "Compare v r \<le> 0" using r(3) by (rule Compare_le_trans)
      then show ?thesis using p True v ngt r by (auto simp: Let_def)
    qed
  qed
qed

lemma latestLoop_None_start:
  assumes "\<exists>(k, infos)\<in>set m. HasPrefix k ''iOS''"
    and "\<forall>(k, infos)\<in>set m. HasPrefix k ''iOS'' \<longrightarrow>
             (\<exists>v. NewVersion (TrimSpace (TrimPrefix k ''iOS'')) = Inr v)"
  shows "\<exists>r. latestLoop None m = Inr (Some r)
     \<and> (\<exists>(k, infos)\<in>set m. HasPrefix k ''iOS''
                   \<and> NewVersion (TrimSpace (TrimPrefix k ''iOS'')) = Inr r)
     \<and> (\<forall>(k, infos)\<in>set m. HasPrefix k ''iOS'' \<longrightarrow>
          (\<forall>v. NewVersion (TrimSpace (TrimPrefix k ''iOS'')) = Inr v \<longrightarrow> Compare v r \<le> 0))"
  using assms
proof (induction m)
  case Nil
  then show ?case by simp
next
  case (Cons p m)
  obtain k i where p: "p = (k, i)" by (cases p)
  have rest: "\<forall>(k, infos)\<in>set m. HasPrefix k ''iOS'' \<longrightarrow>
             (\<exists>v. NewVersion (TrimSpace (TrimPrefix k ''iOS'')) = Inr v)"
    using Cons.prems by simp
  show ?case
  proof (cases "HasPrefix k ''iOS''")
    case False
    then have "\<exists>(k, infos)\<in>set m. HasPrefix k ''iOS''" using Cons.prems(1) p by auto
    from Cons.IH[OF this rest] show ?thesis using p False by auto
  next
    case True
    then obtain v where v: "NewVersion (TrimSpace (TrimPrefix k ''iOS'')) = Inr v"
      using Cons.prems p by auto
    from latestLoop_greatest[OF rest, of v] obtain r where r: "latestLoop (Some v) m = Inr (Some r)"
        "r = v \<or> (\<exists>(k, infos)\<in>set m. HasPrefix k ''iOS''
                   \<and> NewVersion (TrimSpace (TrimPrefix k ''iOS'')) = Inr r)"
        "Compare v r \<le> 0"
        "\<forall>(k, infos)\<in>set m. HasPrefix k ''iOS'' \<longrightarrow>
          (\<forall>v. NewVersion (TrimSpace (TrimPrefix k ''iOS'')) = Inr v \<longrightarrow> Compare v r \<le> 0)"
      by blast
    then show ?thesis using p True v by (auto simp: Let_def)
  qed
qed

text \<open>
  Claim C2. Where the map has a key with the prefix \<open>iOS\<close> and the suffix of every such
  key parses, \<open>getLatestIOSVersion\<close> returns \<open>iOS major.minor\<close> for the first two components
  of the version \<open>r\<close> of one of these keys, and \<open>r\<close> is greatest among them: no parsed
  version compares greater, component by component as numbers.
\<close>

theorem getLatestIOSVersion_greatest:
  assumes "\<exists>(k, infos)\<in>set m. HasPrefix k ''iOS''"
    and "\<forall>(k, infos)\<in>set m. HasPrefix k ''iOS'' \<longrightarrow>
             (\<exists>v. NewVersion (TrimSpace (TrimPrefix k ''iOS'')) = Inr v)"
  shows "\<exists>(k, infos)\<in>set m. \<exists>r. HasPrefix k ''iOS''
     \<and> NewVersion (TrimSpace (TrimPrefix k ''iOS'')) = Inr r
     \<and> (\<forall>(k', infos')\<in>set m. HasPrefix k' ''iOS'' \<longrightarrow>
          (\<forall>v. NewVersion (TrimSpace (TrimPrefix k' ''iOS'')) = Inr v \<longrightarrow> Compare v r \<le> 0))
     \<and> getLatestIOSVersion m
         = Inr (''iOS '' @ decimal (Segments r ! 0) @ ''.'' @ decimal (Segments r ! 1))"
proof -
  from latestLoop_None_start[OF assms] obtain r k infos where
    r: "latestLoop None m = Inr (Some r)" and kin: "(k, infos) \<in> set m" and pre: "HasPrefix k ''iOS''"
    and nv: "NewVersion (TrimSpace (TrimPrefix k ''iOS'')) = Inr r"
    and mx: "\<forall>(k, infos)\<in>set m. HasPrefix k ''iOS'' \<longrightarrow>
          (\<forall>v. NewVersion (TrimSpace (TrimPrefix k ''iOS'')) = Inr v \<longrightarrow> Compare v r \<le> 0)"
    by blast
  have "\<not> length (Segments r) < 2" using NewVersion_length[OF nv] by simp
  then have "getLatestIOSVersion m
         = Inr (''iOS '' @ decimal (Segments r ! 0) @ ''.'' @ decimal (Segments r ! 1))"
    using r by (simp add: getLatestIOSVersion_def Let_def)
  with kin pre nv mx show ?thesis by blast
qed

text \<open>
  The witness has \<open>10.0\<close> win over \<open>9.3\<close>, which the order of the strings would not, and
  the spec's scenario resolve to the simulator \<open>X\<close>.
\<close>

theorem getLatestIOSVersion_greatest_witness:
  "getLatestIOSVersion [(''iOS 9.3'', []), (''tvOS 12.0'', []), (''iOS 10.0'', [])] = Inr ''iOS 10.0''
   \<and> getSimulatorInfo (Inr scenarioBuckets) ''latest'' ''iPhone 8''
       = Inr \<lparr>Name = ''iPhone 8'', ID = ''X'', Status = ''Shutdown''\<rparr>"
proof -
  let ?m = "[(''iOS 9.3'', []), (''tvOS 12.0'', []), (''iOS 10.0'', [])] :: OsVersionSimulatorInfosMap"
  have h1: "\<exists>(k, infos)\<in>set ?m. HasPrefix k ''iOS''" by (simp add: HasPrefix_def)
  have h2: "\<forall>(k, infos)\<in>set ?m. HasPrefix k ''iOS'' \<longrightarrow>
             (\<exists>v. NewVersion (TrimSpace (TrimPrefix k ''iOS'')) = Inr v)"
    by (simp add: go_eval)
  have s1: "\<exists>(k, infos)\<in>set scenarioBuckets. HasPrefix k ''iOS''"
    by (simp add: scenarioBuckets_def HasPrefix_def)
  have s2: "\<forall>(k, infos)\<in>set scenarioBuckets. HasPrefix k ''iOS'' \<longrightarrow>
             (\<exists>v. NewVersion (TrimSpace (TrimPrefix k ''iOS'')) = Inr v)"
    by (simp add: scenarioBuckets_def go_eval)
  from getLatestIOSVersion_greatest[OF s1 s2]
  have "getLatestIOSVersion scenarioBuckets = Inr ''iOS 12.1''"
    by (simp add: scenarioBuckets_def go_eval)
  then have "getSimulatorInfo (Inr scenarioBuckets) ''latest'' ''iPhone 8''
       = Inr \<lparr>Name = ''iPhone 8'', ID = ''X'', Status = ''Shutdown''\<rparr>"
    by (simp add: getSimulatorInfo_def) (simp add: scenarioBuckets_def)
  moreover from getLatestIOSVersion_greatest[OF h1 h2]
  have "getLatestIOSVersion ?m = Inr ''iOS 10.0''"
    by (simp add: go_eval)
  ultimately show ?thesis by simp
qed

subsection \<open>getSimulatorInfo\<close>

lemma scenarioBuckets_latest: "getLatestIOSVersion scenarioBuckets = Inr ''iOS 12.1''"
  by (simp add: scenarioBuckets_def getLatestIOSVersion_def go_eval)

lemma infosLoop_None: "infosLoop d infos = None \<longleftrightarrow> d \<notin> Name ` set infos"
  by (induction infos) auto

lemma infosLoop_Some: "infosLoop d infos = Some info \<Longrightarrow> Name info = d \<and> info \<in> set infos"
  by (induction infos) (auto split: if_splits)

lemma infosLoop_first:
  "\<forall>i\<in>set pre. Name i \<noteq> d \<Longrightarrow> Name info = d \<Longrightarrow> infosLoop d (pre @ info # post) = Some info"
  by (induction pre) auto

text \<open>
  Claim C5. Let \<open>k\<close> be the key the OS version resolves to (the version itself, or for
  \<open>latest\<close> what \<open>getLatestIOSVersion\<close> returns). With no bucket under \<open>k\<close>,
  \<open>getSimulatorInfo\<close> returns the error that names \<open>k\<close>; with a bucket none of whose entries
  has the device name, the error that names \<open>k\<close> and the device name. And the name of a
  simulator it returns is the device name, equal byte for byte: there is no other match.
\<close>

theorem getSimulatorInfo_not_found:
  assumes "(if osVersion = ''latest'' then getLatestIOSVersion m else Inr osVersion) = Inr k"
  shows "(map_of m k = None \<longrightarrow>
            getSimulatorInfo (Inr m) osVersion deviceName
              = Inl (''No simulators found for os version: '' @ k))
       \<and> (\<forall>infos. map_of m k = Some infos \<longrightarrow> deviceName \<notin> Name ` set infos \<longrightarrow>
            getSimulatorInfo (Inr m) osVersion deviceName
              = Inl (''No simulators found for os version: ('' @ k @ ''), device name: (''
                     @ deviceName @ '')''))
       \<and> (\<forall>info. getSimulatorInfo (Inr m) osVersion deviceName = Inr info \<longrightarrow>
            Name info = deviceName \<and> (\<exists>infos. map_of m k = Some infos \<and> info \<in> set infos))"
proof (intro conjI allI impI)
  assume "map_of m k = None"
  then show "getSimulatorInfo (Inr m) osVersion deviceName
              = Inl (''No simulators found for os version: '' @ k)"
    using assms by (simp add: getSimulatorInfo_def)
next
  fix infos
  assume "map_of m k = Some infos" "deviceName \<notin> Name ` set infos"
  moreover from this have "infosLoop deviceName infos = None" by (simp add: infosLoop_None)
  ultimately show "getSimulatorInfo (Inr m) osVersion deviceName
              = Inl (''No simulators found for os version: ('' @ k @ ''), device name: (''
                     @ deviceName @ '')'')"
    using assms by (simp add: getSimulatorInfo_def)
next
  fix info
  assume ok: "getSimulatorInfo (Inr m) osVersion deviceName = Inr info"
  then obtain infos where "map_of m k = Some infos" "infosLoop deviceName infos = Some info"
    using assms by (auto simp: getSimulatorInfo_def split: option.splits)
  then show "Name info = deviceName" "\<exists>infos. map_of m k = Some infos \<and> info \<in> set infos"
    using infosLoop_Some by blast+
qed

theorem getSimulatorInfo_not_found_witness:
  "getSimulatorInfo (Inr scenarioBuckets) ''iOS 10.0'' ''iPhone 8''
     = Inl ''No simulators found for os version: iOS 10.0''
   \<and> getSimulatorInfo (Inr scenarioBuckets) ''latest'' ''iPhone''
     = Inl ''No simulators found for os version: (iOS 12.1), device name: (iPhone)''"
proof -
  have a: "(if ''iOS 10.0'' = ''latest'' then getLatestIOSVersion scenarioBuckets
            else Inr ''iOS 10.0'') = Inr ''iOS 10.0''" by simp
  have b: "(if ''latest'' = ''latest'' then getLatestIOSVersion scenarioBuckets
            else Inr ''latest'') = Inr ''iOS 12.1''" by (simp add: scenarioBuckets_latest)
  have na: "map_of scenarioBuckets ''iOS 10.0'' = None" by (simp add: scenarioBuckets_def)
  have nb: "map_of scenarioBuckets ''iOS 12.1''
      = Some [\<lparr>Name = ''iPhone 8'', ID = ''X'', Status = ''Shutdown''\<rparr>]"
    by (simp add: scenarioBuckets_def)
  show ?thesis
    using getSimulatorInfo_not_found[OF a, of "''iPhone 8''"]
      getSimulatorInfo_not_found[OF b, of "''iPhone''"] na nb
    by simp
qed

text \<open>
  Claim C10. Where the bucket under the resolved key has several entries with the device
  name, \<open>getSimulatorInfo\<close> returns the first of them in the order of the list.
\<close>

theorem getSimulatorInfo_first_match:
  assumes "(if osVersion = ''latest'' then getLatestIOSVersion m else Inr osVersion) = Inr k"
    and "map_of m k = Some (pre @ info # post)"
    and "\<forall>i\<in>set pre. Name i \<noteq> deviceName" and "Name info = deviceName"
  shows "getSimulatorInfo (Inr m) osVersion deviceName = Inr info"
  using assms by (simp add: getSimulatorInfo_def infosLoop_first)

theorem getSimulatorInfo_first_match_witness:
  "getSimulatorInfo
     (Inr [(''iOS 12.1'',
            [\<lparr>Name = ''iPad Air'', ID = ''P'', Status = ''Shutdown''\<rparr>,
             \<lparr>Name = ''iPhone 8'', ID = ''A'', Status = ''Shutdown''\<rparr>,
             \<lparr>Name = ''iPhone 8'', ID = ''B'', Status = ''Booted''\<rparr>])])
     ''iOS 12.1'' ''iPhone 8''
   = Inr \<lparr>Name = ''iPhone 8'', ID = ''A'', Status = ''Shutdown''\<rparr>"
  by (rule getSimulatorInfo_first_match
       [where k = "''iOS 12.1''"
          and pre = "[\<lparr>Name = ''iPad Air'', ID = ''P'', Status = ''Shutdown''\<rparr>]"
          and post = "[\<lparr>Name = ''iPhone 8'', ID = ''B'', Status = ''Booted''\<rparr>]"])
     simp_all

section \<open>Properties of a run\<close>

subsection \<open>What each part of a run publishes, and whether it exits\<close>

lemma published_append [simp]: "published k (xs @ ys) = published k xs @ published k ys"
  by (induction k xs rule: published.induct) auto

lemma published_exportOrWarn [simp]:
  "published k (exportOrWarn w k' v) = (if k' = k then [v] else [])"
  by (simp add: exportOrWarn_def exportEnvironmentWithEnvman_def split: option.splits)

lemma published_failf [simp]:
  "published k (failf w format v) = (if k = ''BITRISE_XAMARIN_TEST_RESULT'' then [''failed''] else [])"
  by (auto simp: failf_def)

lemma published_testInvocation [simp]: "published k (testInvocation w c rlp tn tpo pn a) = []"
  by (simp add: testInvocation_def)

lemma published_readWarning [simp]: "published k (readWarning e) = []"
  by (simp add: readWarning_def split: option.splits)

lemma published_print [simp]: "published k (ConfigsModel_print c) = []"
  by (simp add: ConfigsModel_print_def)

lemma published_warnings [simp]: "published k (map (\<lambda>warning. Log Warnf warning []) ws) = []"
  by (induction ws) auto

lemma exit_exportOrWarn [simp]: "OsExit m \<notin> set (exportOrWarn w k v)"
  by (simp add: exportOrWarn_def exportEnvironmentWithEnvman_def split: option.splits)

lemma exit_failf [simp]: "OsExit m \<in> set (failf w format v) \<longleftrightarrow> m = 1"
  by (auto simp: failf_def)

lemma exit_testInvocation [simp]: "OsExit m \<notin> set (testInvocation w c rlp tn tpo pn a)"
  by (simp add: testInvocation_def)

lemma exit_readWarning [simp]: "OsExit m \<notin> set (readWarning e)"
  by (simp add: readWarning_def split: option.splits)

lemma exit_print [simp]: "OsExit m \<notin> set (ConfigsModel_print c)"
  by (simp add: ConfigsModel_print_def)

lemma exit_warnings [simp]: "OsExit m \<notin> set (map (\<lambda>warning. Log Warnf warning []) ws)"
  by (induction ws) auto

text \<open>
  The loop over the referred projects publishes the result token only where it exits, and
  the full results only where it exits at a failed test run with a result log that is
  not empty.
\<close>

lemma referredLoop_run:
  "referredLoop w c pm rlp tn tpo resultLog n names = (es, ending, rl, n') \<Longrightarrow>
     published ''BITRISE_XAMARIN_TEST_RESULT'' es = (if ending = Continues then [] else [''failed''])
   \<and> published ''BITRISE_XAMARIN_TEST_FULL_RESULTS_TEXT'' es
       = (if ending = TestFailed \<and> rl \<noteq> '''' then [rl] else [])
   \<and> (OsExit 1 \<in> set es \<longleftrightarrow> ending \<noteq> Continues)"
proof (induction names arbitrary: resultLog n es ending rl n')
  case Nil
  then show ?case by auto
next
  case (Cons projectName rest)
  show ?case
  proof (cases "pm projectName")
    case None
    then show ?thesis using Cons.prems Cons.IH by simp
  next
    case (Some projectOutput)
    show ?thesis
    proof (cases "appPthLoop '''' (Outputs projectOutput) = ''''")
      case True
      then show ?thesis using Cons.prems Some by auto
    next
      case app: False
      show ?thesis
      proof (cases "Setenv w ''APP_BUNDLE_PATH'' (appPthLoop '''' (Outputs projectOutput))")
        case (Some err)
        then show ?thesis using Cons.prems \<open>pm projectName = Some projectOutput\<close> app by auto
      next
        case None
        obtain testLog readErr where t: "testResultLogContent w n rlp = (testLog, readErr)"
          by (cases "testResultLogContent w n rlp")
        show ?thesis
        proof (cases "NunitRun w n")
          case (Some e)
          then show ?thesis
            using Cons.prems \<open>pm projectName = Some projectOutput\<close> app None t
            by (auto simp: parseErrorFromResultLog_def)
        next
          case ok: None
          obtain es' ending' rl' n'' where r:
            "referredLoop w c pm rlp tn tpo testLog (Suc n) rest = (es', ending', rl', n'')"
            by (cases "referredLoop w c pm rlp tn tpo testLog (Suc n) rest") auto
          from Cons.IH[OF r] show ?thesis
            using Cons.prems \<open>pm projectName = Some projectOutput\<close> app None t ok r
            by auto
        qed
      qed
    qed
  qed
qed

lemma testProjectsLoop_run:
  "testProjectsLoop w c pm rlp resultLog n tests = (es, ending, rl, n') \<Longrightarrow>
     published ''BITRISE_XAMARIN_TEST_RESULT'' es = (if ending = Continues then [] else [''failed''])
   \<and> published ''BITRISE_XAMARIN_TEST_FULL_RESULTS_TEXT'' es
       = (if ending = TestFailed \<and> rl \<noteq> '''' then [rl] else [])
   \<and> (OsExit 1 \<in> set es \<longleftrightarrow> ending \<noteq> Continues)"
proof (induction tests arbitrary: resultLog n es ending rl n')
  case Nil
  then show ?case by auto
next
  case (Cons p rest)
  obtain tn tpo where p: "p = (tn, tpo)" by (cases p)
  show ?case
  proof (cases "length (ReferredProjectNames tpo) = 0")
    case True
    obtain es' ending' rl' n'' where r:
      "testProjectsLoop w c pm rlp resultLog n rest = (es', ending', rl', n'')"
      by (cases "testProjectsLoop w c pm rlp resultLog n rest") auto
    from Cons.IH[OF r] show ?thesis using Cons.prems p True r by auto
  next
    case False
    obtain es1 ending1 rl1 n1 where r1:
      "referredLoop w c pm rlp tn tpo resultLog n (ReferredProjectNames tpo) = (es1, ending1, rl1, n1)"
      by (cases "referredLoop w c pm rlp tn tpo resultLog n (ReferredProjectNames tpo)") auto
    note l1 = referredLoop_run[OF r1]
    show ?thesis
    proof (cases ending1)
      case Continues
      obtain es' ending' rl' n'' where r:
        "testProjectsLoop w c pm rlp rl1 n1 rest = (es', ending', rl', n'')"
        by (cases "testProjectsLoop w c pm rlp rl1 n1 rest") auto
      from Cons.IH[OF r] l1 show ?thesis using Cons.prems p False r1 r Continues by auto
    next
      case TestFailed
      then show ?thesis using l1 Cons.prems p False r1 by auto
    next
      case Aborted
      then show ?thesis using l1 Cons.prems p False r1 by auto
    qed
  qed
qed

lemma runNunitTests_run:
  "published ''BITRISE_XAMARIN_TEST_RESULT'' (runNunitTests w c pth pm tests)
     = (if OsExit 1 \<in> set (runNunitTests w c pth pm tests) then [''failed''] else [''succeeded''])"
proof (cases "NunitNew w pth")
  case (Some err)
  then show ?thesis by (simp add: runNunitTests_def)
next
  case None
  obtain es ending rl n where r:
    "testProjectsLoop w c pm (Join w (DeployDir c) ''TestResult.xml'') '''' 0 tests = (es, ending, rl, n)"
    by (cases "testProjectsLoop w c pm (Join w (DeployDir c) ''TestResult.xml'') '''' 0 tests") auto
  from testProjectsLoop_run[OF r] show ?thesis
    using None r by (cases ending) (auto simp: runNunitTests_def)
qed

subsection \<open>The example runs\<close>

lemmas step_eval = runNunitTests_def createConfigsModelFromEnvs_def ConfigsModel_print_def
  ConfigsModel_validate_def testInvocation_def readWarning_def failf_def
  exportOrWarn_def exportEnvironmentWithEnvman_def testResultLogContent_def Let_def

lemma scenario_simulator:
  "getSimulatorInfo (Inr scenarioBuckets) ''latest'' ''iPhone 8''
     = Inr \<lparr>Name = ''iPhone 8'', ID = ''X'', Status = ''Shutdown''\<rparr>"
  by (simp add: getSimulatorInfo_def scenarioBuckets_latest) (simp add: scenarioBuckets_def)

lemma exampleLoop:
  "referredLoop exampleWorld (createConfigsModelFromEnvs exampleWorld) exampleOutputs
     ''deploy/TestResult.xml'' ''UITest'' exampleTest '''' 0 [''App1'', ''App2'']
   = ([OsSetenv ''APP_BUNDLE_PATH'' ''App1.app'', Println,
       Log Infof ''Testing (%s) against (%s)'' [''UITest'', ''App1''],
       Log Printf ''test dll: %s'' [''UITest.dll''],
       Log Printf ''app: %s'' [''App1.app''], Println,
       Log Infof ''Running Xamarin UITest'' [],
       Log Donef ''$ %s'' [''mono nunit3-console.exe UITest.dll''], Println,
       Run ''UITest.dll'' '''' ''deploy/TestResult.xml'',
       Log Errorf ''No app generated for project: %s'' [''App2''],
       EnvmanAdd ''BITRISE_XAMARIN_TEST_RESULT'' ''failed'', OsExit 1],
      Aborted, ''<test-run/>'', 1)"
  by (simp add: exampleWorld_def exampleOutputs_def exampleTest_def step_eval)

lemma passingLoop:
  "testProjectsLoop passingWorld (createConfigsModelFromEnvs passingWorld) exampleOutputs
     ''deploy/TestResult.xml'' '''' 0 [(''UITest'', passingTest)]
   = ([OsSetenv ''APP_BUNDLE_PATH'' ''App1.app'', Println,
       Log Infof ''Testing (%s) against (%s)'' [''UITest'', ''App1''],
       Log Printf ''test dll: %s'' [''UITest.dll''],
       Log Printf ''app: %s'' [''App1.app''], Println,
       Log Infof ''Running Xamarin UITest'' [],
       Log Donef ''$ %s'' [''mono nunit3-console.exe UITest.dll''], Println,
       Run ''UITest.dll'' '''' ''deploy/TestResult.xml''],
      Continues, ''<test-run/>'', 1)"
  by (simp add: passingWorld_def passingTest_def exampleWorld_def exampleOutputs_def
      exampleTest_def step_eval)

lemma failingLoop:
  "testProjectsLoop failingWorld (createConfigsModelFromEnvs failingWorld) exampleOutputs
     ''deploy/TestResult.xml'' '''' 0 [(''UITest'', exampleTest)]
   = ([OsSetenv ''APP_BUNDLE_PATH'' ''App1.app'', Println,
       Log Infof ''Testing (%s) against (%s)'' [''UITest'', ''App1''],
       Log Printf ''test dll: %s'' [''UITest.dll''],
       Log Printf ''app: %s'' [''App1.app''], Println,
       Log Infof ''Running Xamarin UITest'' [],
       Log Donef ''$ %s'' [''mono nunit3-console.exe UITest.dll''], Println,
       Run ''UITest.dll'' '''' ''deploy/TestResult.xml'',
       Log Errorf ''%s'' [''<message>boom</message>''],
       EnvmanAdd ''BITRISE_XAMARIN_TEST_FULL_RESULTS_TEXT''
         ''<failure>\<newline><message>boom</message>\<newline>'',
       Log Errorf ''Test failed, error: %s'' [''exit status 1''],
       EnvmanAdd ''BITRISE_XAMARIN_TEST_RESULT'' ''failed'', OsExit 1],
      TestFailed, ''<failure>\<newline><message>boom</message>\<newline>'', 1)"
  by (simp add: failingWorld_def exampleWorld_def exampleOutputs_def
      exampleTest_def step_eval parseErrorFromResultLog_def scanLines_def MaxScanTokenSize_def
      dropCR_def TrimSpace_def isSpace1_def isSpace2_def isSpace3_def HasPrefix_def)

lemma silentLoop:
  "testProjectsLoop silentWorld (createConfigsModelFromEnvs silentWorld) exampleOutputs
     ''deploy/TestResult.xml'' '''' 0 [(''UITest'', exampleTest)]
   = ([OsSetenv ''APP_BUNDLE_PATH'' ''App1.app'', Println,
       Log Infof ''Testing (%s) against (%s)'' [''UITest'', ''App1''],
       Log Printf ''test dll: %s'' [''UITest.dll''],
       Log Printf ''app: %s'' [''App1.app''], Println,
       Log Infof ''Running Xamarin UITest'' [],
       Log Donef ''$ %s'' [''mono nunit3-console.exe UITest.dll''], Println,
       Run ''UITest.dll'' '''' ''deploy/TestResult.xml'',
       Log Errorf ''Test failed, error: %s'' [''exit status 1''],
       EnvmanAdd ''BITRISE_XAMARIN_TEST_RESULT'' ''failed'', OsExit 1],
      TestFailed, '''', 1)"
  by (simp add: silentWorld_def exampleWorld_def exampleOutputs_def
      exampleTest_def step_eval parseErrorFromResultLog_def scanLines_def)

lemma main_exampleWorld:
  "main exampleWorld =
     [Println, Log Infof ''Build Configs:'' [],
      Log Printf ''- XamarinSolution: %s'' [''App.sln''],
      Log Printf ''- XamarinConfiguration: %s'' [''Release''],
      Log Printf ''- XamarinPlatform: %s'' [''iPhoneSimulator''],
      Log Infof ''Xamarin UITest Configs:'' [],
      Log Printf ''- TestToRun: %s'' [[]],
      Log Printf ''- SimulatorDevice: %s'' [''iPhone 8''],
      Log Printf ''- SimulatorOsVersion: %s'' [''latest''],
      Log Infof ''Other Configs:'' [],
      Log Printf ''- DeployDir: %s'' [''deploy''], Println,
      Log Infof ''Collecting simulator info...'' [],
      Log Donef ''Simulator (%s), id: (%s), status: %s'' [''iPhone 8'', ''X'', ''Shutdown''],
      OsSetenv ''IOS_SIMULATOR_UDID'' ''X'', Println,
      Log Infof ''Building all iOS Xamarin UITest and Referred Projects in solution: %s''
        [''App.sln''],
      OsSetenv ''APP_BUNDLE_PATH'' ''App1.app'', Println,
      Log Infof ''Testing (%s) against (%s)'' [''UITest'', ''App1''],
      Log Printf ''test dll: %s'' [''UITest.dll''],
      Log Printf ''app: %s'' [''App1.app''], Println,
      Log Infof ''Running Xamarin UITest'' [],
      Log Donef ''$ %s'' [''mono nunit3-console.exe UITest.dll''], Println,
      Run ''UITest.dll'' '''' ''deploy/TestResult.xml'',
      Log Errorf ''No app generated for project: %s'' [''App2''],
      EnvmanAdd ''BITRISE_XAMARIN_TEST_RESULT'' ''failed'', OsExit 1]"
proof -
  have cfg: "createConfigsModelFromEnvs exampleWorld =
      \<lparr>XamarinSolution = ''App.sln'', XamarinConfiguration = ''Release'',
       XamarinPlatform = ''iPhoneSimulator'', TestToRun = '''', SimulatorDevice = ''iPhone 8'',
       SimulatorOsVersion = ''latest'', DeployDir = ''deploy''\<rparr>"
    by (simp add: createConfigsModelFromEnvs_def exampleWorld_def)
  have refs: "ReferredProjectNames exampleTest = [''App1'', ''App2'']"
    by (simp add: exampleTest_def)
  have loop: "testProjectsLoop exampleWorld (createConfigsModelFromEnvs exampleWorld) exampleOutputs
     ''deploy/TestResult.xml'' '''' 0 [(''UITest'', exampleTest)]
     = referredLoop exampleWorld (createConfigsModelFromEnvs exampleWorld) exampleOutputs
     ''deploy/TestResult.xml'' ''UITest'' exampleTest '''' 0 [''App1'', ''App2'']"
    by (simp add: refs exampleLoop del: referredLoop.simps)
  have sim: "GetOsVersionSimulatorInfosMap exampleWorld = Inr scenarioBuckets"
    by (simp add: exampleWorld_def)
  have w: "IsPathExists exampleWorld = (\<lambda>pth. Inr True)" "Setenv exampleWorld = (\<lambda>k v. None)"
    "SystemNunit3ConsolePath exampleWorld = Inr ''nunit3-console.exe''"
    "BuilderNew exampleWorld = (\<lambda>solution. None)"
    "BuildAllXamarinUITestAndReferredProjects exampleWorld = (\<lambda>configuration platform. ([], None))"
    "CollectProjectOutputs exampleWorld = (\<lambda>configuration platform. Inr exampleOutputs)"
    "CollectXamarinUITestProjectOutputs exampleWorld
       = (\<lambda>configuration platform. ([(''UITest'', exampleTest)], [], None))"
    "NunitNew exampleWorld = (\<lambda>pth. None)" "Join exampleWorld = (\<lambda>dir file. dir @ ''/'' @ file)"
    by (simp_all add: exampleWorld_def)
  have fields: "XamarinSolution (createConfigsModelFromEnvs exampleWorld) = ''App.sln''"
    "XamarinConfiguration (createConfigsModelFromEnvs exampleWorld) = ''Release''"
    "XamarinPlatform (createConfigsModelFromEnvs exampleWorld) = ''iPhoneSimulator''"
    "TestToRun (createConfigsModelFromEnvs exampleWorld) = []"
    "SimulatorDevice (createConfigsModelFromEnvs exampleWorld) = ''iPhone 8''"
    "SimulatorOsVersion (createConfigsModelFromEnvs exampleWorld) = ''latest''"
    "DeployDir (createConfigsModelFromEnvs exampleWorld) = ''deploy''"
    by (simp_all add: cfg)
  show ?thesis
    by (simp add: main_def runNunitTests_def Let_def sim w fields scenario_simulator loop
        exampleLoop ConfigsModel_print_def ConfigsModel_validate_def
        del: referredLoop.simps testProjectsLoop.simps)
qed

lemma main_passingWorld_exit: "OsExit 1 \<notin> set (main passingWorld)"
proof -
  have cfg: "createConfigsModelFromEnvs passingWorld =
      \<lparr>XamarinSolution = ''App.sln'', XamarinConfiguration = ''Release'',
       XamarinPlatform = ''iPhoneSimulator'', TestToRun = '''', SimulatorDevice = ''iPhone 8'',
       SimulatorOsVersion = ''latest'', DeployDir = ''deploy''\<rparr>"
    by (simp add: createConfigsModelFromEnvs_def passingWorld_def exampleWorld_def)
  have sim: "GetOsVersionSimulatorInfosMap passingWorld = Inr scenarioBuckets"
    by (simp add: passingWorld_def exampleWorld_def)
  have w: "IsPathExists passingWorld = (\<lambda>pth. Inr True)" "Setenv passingWorld = (\<lambda>k v. None)"
    "SystemNunit3ConsolePath passingWorld = Inr ''nunit3-console.exe''"
    "BuilderNew passingWorld = (\<lambda>solution. None)"
    "BuildAllXamarinUITestAndReferredProjects passingWorld = (\<lambda>configuration platform. ([], None))"
    "CollectProjectOutputs passingWorld = (\<lambda>configuration platform. Inr exampleOutputs)"
    "CollectXamarinUITestProjectOutputs passingWorld
       = (\<lambda>configuration platform. ([(''UITest'', passingTest)], [], None))"
    "NunitNew passingWorld = (\<lambda>pth. None)" "Join passingWorld = (\<lambda>dir file. dir @ ''/'' @ file)"
    by (simp_all add: passingWorld_def exampleWorld_def)
  have fields: "XamarinSolution (createConfigsModelFromEnvs passingWorld) = ''App.sln''"
    "XamarinConfiguration (createConfigsModelFromEnvs passingWorld) = ''Release''"
    "XamarinPlatform (createConfigsModelFromEnvs passingWorld) = ''iPhoneSimulator''"
    "TestToRun (createConfigsModelFromEnvs passingWorld) = []"
    "SimulatorDevice (createConfigsModelFromEnvs passingWorld) = ''iPhone 8''"
    "SimulatorOsVersion (createConfigsModelFromEnvs passingWorld) = ''latest''"
    "DeployDir (createConfigsModelFromEnvs passingWorld) = ''deploy''"
    by (simp_all add: cfg)
  show ?thesis
    by (simp add: main_def runNunitTests_def Let_def sim w fields scenario_simulator
        passingLoop ConfigsModel_print_def ConfigsModel_validate_def
        exportOrWarn_def exportEnvironmentWithEnvman_def
        del: referredLoop.simps testProjectsLoop.simps split: option.splits)
qed

subsection \<open>The result token\<close>

text \<open>
  Claim C4. Every run publishes the result token once, whatever the collaborators return:
  with the value \<open>failed\<close> where the run ends in \<open>os.Exit(1)\<close>, which is where \<open>failf\<close> is
  called, and with the value \<open>succeeded\<close> where \<open>main\<close> returns. No other value is
  published under the key.
\<close>

theorem main_result_token:
  "published ''BITRISE_XAMARIN_TEST_RESULT'' (main w)
     = (if OsExit 1 \<in> set (main w) then [''failed''] else [''succeeded''])"
  using runNunitTests_run
  by (auto simp: main_def Let_def split: option.splits sum.splits prod.splits)

theorem main_result_token_witness:
  "published ''BITRISE_XAMARIN_TEST_RESULT'' (main exampleWorld) = [''failed'']
   \<and> published ''BITRISE_XAMARIN_TEST_RESULT'' (main passingWorld) = [''succeeded'']"
proof -
  have "OsExit 1 \<in> set (main exampleWorld)" by (simp add: main_exampleWorld)
  with main_result_token[of exampleWorld]
  have "published ''BITRISE_XAMARIN_TEST_RESULT'' (main exampleWorld) = [''failed'']" by simp
  moreover from main_result_token[of passingWorld] main_passingWorld_exit
  have "published ''BITRISE_XAMARIN_TEST_RESULT'' (main passingWorld) = [''succeeded'']" by simp
  ultimately show ?thesis by simp
qed

subsection \<open>The full results\<close>

text \<open>
  Claim C8. In the part of \<open>main\<close> that runs the tests, the full results are published
  exactly where the loop ends at a failed test run or runs to its end, and the variable
  \<open>resultLog\<close> then holds a text that is not empty: that text is the one value published.
  Where \<open>resultLog\<close> is empty nothing is published under the key. So no run publishes
  the empty string under it.
\<close>

theorem full_results_nonempty:
  "published ''BITRISE_XAMARIN_TEST_FULL_RESULTS_TEXT'' (runNunitTests w configs pth pm tests)
     = (case NunitNew w pth of
          Some err \<Rightarrow> []
        | None \<Rightarrow>
            (case testProjectsLoop w configs pm (Join w (DeployDir configs) ''TestResult.xml'')
                    '''' 0 tests of
               (es, ending, resultLog, n) \<Rightarrow>
                 if (ending = TestFailed \<or> ending = Continues) \<and> resultLog \<noteq> ''''
                 then [resultLog] else []))
   \<and> '''' \<notin> set (published ''BITRISE_XAMARIN_TEST_FULL_RESULTS_TEXT'' (main w))"
proof
  show "published ''BITRISE_XAMARIN_TEST_FULL_RESULTS_TEXT'' (runNunitTests w configs pth pm tests)
     = (case NunitNew w pth of
          Some err \<Rightarrow> []
        | None \<Rightarrow>
            (case testProjectsLoop w configs pm (Join w (DeployDir configs) ''TestResult.xml'')
                    '''' 0 tests of
               (es, ending, resultLog, n) \<Rightarrow>
                 if (ending = TestFailed \<or> ending = Continues) \<and> resultLog \<noteq> ''''
                 then [resultLog] else []))" for w configs pth pm tests
  proof (cases "NunitNew w pth")
    case (Some err)
    then show ?thesis by (simp add: runNunitTests_def)
  next
    case None
    obtain es ending rl n where r:
      "testProjectsLoop w configs pm (Join w (DeployDir configs) ''TestResult.xml'') '''' 0 tests
         = (es, ending, rl, n)"
      by (cases "testProjectsLoop w configs pm (Join w (DeployDir configs) ''TestResult.xml'') '''' 0 tests")
        auto
    from testProjectsLoop_run[OF r] show ?thesis
      using None r by (cases ending) (auto simp: runNunitTests_def)
  qed
  then have "'''' \<notin> set (published ''BITRISE_XAMARIN_TEST_FULL_RESULTS_TEXT''
      (runNunitTests w configs pth pm tests))" for w configs pth pm tests
    by (auto split: option.splits prod.splits if_splits)
  then show "'''' \<notin> set (published ''BITRISE_XAMARIN_TEST_FULL_RESULTS_TEXT'' (main w))"
    by (auto simp: main_def Let_def split: option.splits sum.splits prod.splits)
qed

text \<open>
  The witness: a run that ends well with a result log, a failed test run with a result
  log, and a failed test run with an empty one.
\<close>

theorem full_results_nonempty_witness:
  "published ''BITRISE_XAMARIN_TEST_FULL_RESULTS_TEXT''
     (runNunitTests passingWorld (createConfigsModelFromEnvs passingWorld) ''nunit3-console.exe''
        exampleOutputs [(''UITest'', passingTest)]) = [''<test-run/>'']
   \<and> published ''BITRISE_XAMARIN_TEST_FULL_RESULTS_TEXT''
     (runNunitTests failingWorld (createConfigsModelFromEnvs failingWorld) ''nunit3-console.exe''
        exampleOutputs [(''UITest'', exampleTest)])
       = [''<failure>\<newline><message>boom</message>\<newline>'']
   \<and> published ''BITRISE_XAMARIN_TEST_FULL_RESULTS_TEXT''
     (runNunitTests silentWorld (createConfigsModelFromEnvs silentWorld) ''nunit3-console.exe''
        exampleOutputs [(''UITest'', exampleTest)]) = []"
proof -
  have p: "NunitNew passingWorld ''nunit3-console.exe'' = None"
    "Join passingWorld (DeployDir (createConfigsModelFromEnvs passingWorld)) ''TestResult.xml''
       = ''deploy/TestResult.xml''"
    by (simp_all add: passingWorld_def exampleWorld_def createConfigsModelFromEnvs_def)
  have f: "NunitNew failingWorld ''nunit3-console.exe'' = None"
    "Join failingWorld (DeployDir (createConfigsModelFromEnvs failingWorld)) ''TestResult.xml''
       = ''deploy/TestResult.xml''"
    by (simp_all add: failingWorld_def exampleWorld_def createConfigsModelFromEnvs_def)
  have s: "NunitNew silentWorld ''nunit3-console.exe'' = None"
    "Join silentWorld (DeployDir (createConfigsModelFromEnvs silentWorld)) ''TestResult.xml''
       = ''deploy/TestResult.xml''"
    by (simp_all add: silentWorld_def exampleWorld_def createConfigsModelFromEnvs_def)
  from full_results_nonempty[of passingWorld "createConfigsModelFromEnvs passingWorld"
      "''nunit3-console.exe''" exampleOutputs "[(''UITest'', passingTest)]"]
  have 1: "published ''BITRISE_XAMARIN_TEST_FULL_RESULTS_TEXT''
     (runNunitTests passingWorld (createConfigsModelFromEnvs passingWorld) ''nunit3-console.exe''
        exampleOutputs [(''UITest'', passingTest)]) = [''<test-run/>'']"
    by (simp add: p passingLoop del: testProjectsLoop.simps)
  from full_results_nonempty[of failingWorld "createConfigsModelFromEnvs failingWorld"
      "''nunit3-console.exe''" exampleOutputs "[(''UITest'', exampleTest)]"]
  have 2: "published ''BITRISE_XAMARIN_TEST_FULL_RESULTS_TEXT''
     (runNunitTests failingWorld (createConfigsModelFromEnvs failingWorld) ''nunit3-console.exe''
        exampleOutputs [(''UITest'', exampleTest)])
       = [''<failure>\<newline><message>boom</message>\<newline>'']"
    by (simp add: f failingLoop del: testProjectsLoop.simps)
  from full_results_nonempty[of silentWorld "createConfigsModelFromEnvs silentWorld"
      "''nunit3-console.exe''" exampleOutputs "[(''UITest'', exampleTest)]"]
  have 3: "published ''BITRISE_XAMARIN_TEST_FULL_RESULTS_TEXT''
     (runNunitTests silentWorld (createConfigsModelFromEnvs silentWorld) ''nunit3-console.exe''
        exampleOutputs [(''UITest'', exampleTest)]) = []"
    by (simp add: s silentLoop del: testProjectsLoop.simps)
  from 1 2 3 show ?thesis by simp
qed

subsection \<open>The application bundle of a referred project\<close>





subsection \<open>Two referred projects, the second without an application bundle\<close>




end
